theory Spec2Isabelle
  imports Complex_Main
begin

section \<open>Numbers\<close>

text \<open>
  A JavaScript \<^verbatim>\<open>number\<close> is an IEEE-754 double: a rational that the format holds, or
  one of \<^verbatim>\<open>NaN\<close>, \<^verbatim>\<open>Infinity\<close> and \<^verbatim>\<open>-Infinity\<close>. The two zeros are one value. The numbers
  a form or the ledger delivers are doubles; the arithmetic below rounds its results to
  doubles as the standard says (to the nearest double, ties to the even mantissa, 53
  bits of mantissa, overflow to an infinity from \<open>2^1024\<close>, fixed spacing \<open>2^-1074\<close> below
  \<open>2^-1022\<close>).
\<close>

datatype number = Finite rat | NaN | PosInfinity | NegInfinity

text \<open>The number of binary digits of a natural number.\<close>

fun bit_length :: "nat \<Rightarrow> nat" where
  "bit_length n = (if n = 0 then 0 else Suc (bit_length (n div 2)))"

declare bit_length.simps [simp del]

definition pow2 :: "int \<Rightarrow> rat" where
  "pow2 k = (if 0 \<le> k then 2 ^ nat k else 1 / 2 ^ nat (- k))"

text \<open>For \<open>0 < a\<close>, the exponent \<open>e\<close> with \<open>2^e \<le> a < 2^(e+1)\<close>.\<close>

definition floor_log2 :: "rat \<Rightarrow> int" where
  "floor_log2 a =
     (if 1 \<le> a then int (bit_length (nat \<lfloor>a\<rfloor>)) - 1
      else - int (bit_length (nat \<lceil>1 / a\<rceil> - 1)))"

definition round_half_even :: "rat \<Rightarrow> int" where
  "round_half_even q =
     (let f = \<lfloor>q\<rfloor>; d = q - of_int f
      in if d < 1 / 2 then f
         else if 1 / 2 < d then f + 1
         else if even f then f else f + 1)"

text \<open>The double nearest to a rational.\<close>

definition round_double :: "rat \<Rightarrow> number" where
  "round_double x =
     (if x = 0 then Finite 0
      else
        (let a = \<bar>x\<bar>;
             e = max (floor_log2 a) (- 1022);
             ulp = pow2 (e - 52);
             r = of_int (round_half_even (a / ulp)) * ulp
         in if 2 ^ 1024 \<le> r then (if 0 < x then PosInfinity else NegInfinity)
            else Finite (sgn x * r)))"

definition number_sign :: "number \<Rightarrow> int" where
  "number_sign x =
     (case x of Finite a \<Rightarrow> (if a = 0 then 0 else if 0 < a then 1 else - 1)
      | NaN \<Rightarrow> 0 | PosInfinity \<Rightarrow> 1 | NegInfinity \<Rightarrow> - 1)"

text \<open>
  \<^verbatim>\<open>x * y\<close>, \<^verbatim>\<open>Math.floor(x)\<close>, \<^verbatim>\<open>x > y\<close> and \<^verbatim>\<open>!x\<close> on numbers. The floor of a double is
  a double; a comparison with \<^verbatim>\<open>NaN\<close> is false; \<open>0\<close> and \<^verbatim>\<open>NaN\<close> are the falsy numbers.
\<close>

fun js_times :: "number \<Rightarrow> number \<Rightarrow> number" where
  "js_times (Finite a) (Finite b) = round_double (a * b)"
| "js_times x y =
     (if x = NaN \<or> y = NaN \<or> number_sign x * number_sign y = 0 then NaN
      else if 0 < number_sign x * number_sign y then PosInfinity else NegInfinity)"

fun Math_floor :: "number \<Rightarrow> number" where
  "Math_floor (Finite a) = Finite (of_int \<lfloor>a\<rfloor>)"
| "Math_floor x = x"

fun js_greater :: "number \<Rightarrow> number \<Rightarrow> bool" where
  "js_greater (Finite a) (Finite b) = (b < a)"
| "js_greater NaN y = False"
| "js_greater x NaN = False"
| "js_greater PosInfinity y = (y \<noteq> PosInfinity)"
| "js_greater x NegInfinity = (x \<noteq> NegInfinity)"
| "js_greater x y = False"

definition falsy_number :: "number \<Rightarrow> bool" where
  "falsy_number x = (x = Finite 0 \<or> x = NaN)"

text \<open>
  The numbers a JavaScript value can be: the non-finite ones, and the rationals that
  rounding leaves as they are.
\<close>

definition is_double :: "number \<Rightarrow> bool" where
  "is_double x = (case x of Finite r \<Rightarrow> round_double r = Finite r | _ \<Rightarrow> True)"

text \<open>
  \<^verbatim>\<open>Number(amount)\<close> of a token amount (a \<^verbatim>\<open>bigint\<close>): the nearest double.
\<close>

definition Number_of_bigint :: "nat \<Rightarrow> number" where
  "Number_of_bigint n = round_double (of_nat n)"

text \<open>
  A \<^verbatim>\<open>PublicKey\<close> is modelled by its base58 text, so \<^verbatim>\<open>publicKey.toString()\<close> is the
  key itself. \<^verbatim>\<open>Keypair.generate()\<close> is an explicit argument: the public key of the
  generated mint keypair. Lamports are natural numbers.
\<close>

type_synonym pubkey = string

section \<open>Errors\<close>

text \<open>
  Every \<^verbatim>\<open>throw\<close> and every \<^verbatim>\<open>setError(...); return\<close> of the source is a value of
  \<open>error\<close>. The messages of the source, by constructor:
  \<^item> \<open>WalletNotConnected\<close>: 'Please connect your wallet using the button in the top navigation bar.'
  \<^item> \<open>NoTokenSelected\<close>: 'Please select a valid token first.' (revoke)
  \<^item> \<open>NoTokenEntered\<close>: 'Please enter a valid token address first.' (burn)
  \<^item> \<open>NotMintAuthority\<close>: 'You do not have mint authority for this token.'
  \<^item> \<open>NotFreezeAuthority\<close>: 'You do not have freeze authority for this token.'
  \<^item> \<open>MintAuthorityAlreadyRevoked\<close>: 'Mint authority has already been revoked for this token.'
  \<^item> \<open>FreezeAuthorityAlreadyRevoked\<close>: 'Freeze authority has already been revoked for this token.'
  \<^item> \<open>NoAuthority\<close>: 'You do not have mint or freeze authority for this token'
  \<^item> \<open>NotATokenMint\<close>: 'Invalid token address or not a token mint'
  \<^item> \<open>AddressIsNotAMint\<close>: 'Address is not a token mint'
  \<^item> \<open>InvalidTokenAddress\<close>: 'Invalid token address'
  \<^item> \<open>AlreadyFrozen\<close>: 'Cannot freeze account - it is already frozen.'
  \<^item> \<open>AccountNotFrozen\<close>: 'Cannot unfreeze account - it is already unfrozen.'
  \<^item> \<open>AccountDoesNotExist\<close>: 'Cannot unfreeze account - it does not exist.'
  \<^item> \<open>UnfreezeAccountMissing\<close>: 'Cannot unfreeze - token account does not exist' (thrown
    after the live lookup)
  \<^item> \<open>NoTokensToBurn\<close>: 'You have no tokens to burn for this token.'
  \<^item> \<open>InsufficientBalance\<close>: 'Insufficient balance. You have ... but trying to burn ...'
  \<^item> \<open>MetadataFailed m\<close>: 'Failed to create token metadata: ' followed by \<open>m\<close>
  \<^item> \<open>FeeCalculatorUnavailable\<close>: 'Failed to fetch fee calculator for fee estimation'
  \<^item> \<open>ValidationFailed\<close>: the form's zod schema rejected the input; the handler is not called
  \<^item> \<open>Thrown m\<close>: an exception of a library or of the ledger's RPC, with its message.
\<close>

datatype error =
    WalletNotConnected
  | NoTokenSelected
  | NoTokenEntered
  | NotMintAuthority
  | NotFreezeAuthority
  | MintAuthorityAlreadyRevoked
  | FreezeAuthorityAlreadyRevoked
  | NoAuthority
  | NotATokenMint
  | AddressIsNotAMint
  | InvalidTokenAddress
  | AlreadyFrozen
  | AccountNotFrozen
  | AccountDoesNotExist
  | UnfreezeAccountMissing
  | NoTokensToBurn
  | InsufficientBalance
  | MetadataFailed string
  | FeeCalculatorUnavailable
  | ValidationFailed
  | Thrown string

section \<open>Instructions and transactions\<close>

datatype authority_type = AuthorityType_MintTokens | AuthorityType_FreezeAccount

text \<open>
  One constructor per instruction builder of the libraries, with the arguments the source
  passes, in the source's order:
  \<^verbatim>\<open>SystemProgram.createAccount({fromPubkey, newAccountPubkey, space, lamports, programId})\<close>,
  \<^verbatim>\<open>createInitializeMintInstruction(mint, decimals, mintAuthority, freezeAuthority)\<close>,
  \<^verbatim>\<open>createCreateMetadataAccountV3Instruction\<close> (metadata, mint, mintAuthority, payer,
  updateAuthority, then name, symbol and uri of the data; the other arguments are the
  same constants at both call sites),
  \<^verbatim>\<open>createAssociatedTokenAccountInstruction(payer, associatedToken, owner, mint)\<close>,
  \<^verbatim>\<open>createMintToInstruction(mint, destination, authority, amount)\<close>,
  \<^verbatim>\<open>createSetAuthorityInstruction(account, currentAuthority, authorityType, newAuthority)\<close>,
  \<^verbatim>\<open>createFreezeAccountInstruction(account, mint, authority)\<close>,
  \<^verbatim>\<open>createThawAccountInstruction(account, mint, authority)\<close>,
  \<^verbatim>\<open>createBurnInstruction(account, mint, owner, amount)\<close>.
\<close>

datatype instruction =
    CreateAccount pubkey pubkey nat nat pubkey
  | InitializeMint pubkey nat pubkey "pubkey option"
  | CreateMetadataAccountV3 pubkey pubkey pubkey pubkey pubkey string string string
  | CreateAssociatedTokenAccount pubkey pubkey pubkey pubkey
  | MintTo pubkey pubkey pubkey number
  | SetAuthority pubkey pubkey authority_type "pubkey option"
  | FreezeAccount pubkey pubkey pubkey
  | ThawAccount pubkey pubkey pubkey
  | Burn pubkey pubkey pubkey number

text \<open>
  The type of an instruction: which builder made it, whatever the accounts and amounts.
  For \<open>SetAuthority\<close> the authority type and the new authority belong to the type, so
  that a revocation is \<open>SetAuthorityType t None\<close>.
\<close>

datatype instruction_type =
    CreateAccountType
  | InitializeMintType
  | CreateMetadataType
  | CreateAssociatedAccountType
  | MintToType
  | SetAuthorityType authority_type "pubkey option"
  | FreezeAccountType
  | ThawAccountType
  | BurnType

fun instruction_type_of :: "instruction \<Rightarrow> instruction_type" where
  "instruction_type_of (CreateAccount f n s l p) = CreateAccountType"
| "instruction_type_of (InitializeMint m d a f) = InitializeMintType"
| "instruction_type_of (CreateMetadataAccountV3 md m a p u n s uri) = CreateMetadataType"
| "instruction_type_of (CreateAssociatedTokenAccount p a ow m) = CreateAssociatedAccountType"
| "instruction_type_of (MintTo m d a n) = MintToType"
| "instruction_type_of (SetAuthority a c t n) = SetAuthorityType t n"
| "instruction_type_of (FreezeAccount a m au) = FreezeAccountType"
| "instruction_type_of (ThawAccount a m au) = ThawAccountType"
| "instruction_type_of (Burn a m ow n) = BurnType"

record transaction =
  feePayer :: "pubkey option"
  recentBlockhash :: "string option"
  instructions :: "instruction list"

definition new_Transaction :: "pubkey option \<Rightarrow> string option \<Rightarrow> transaction" where
  "new_Transaction payer blockhash =
     \<lparr>feePayer = payer, recentBlockhash = blockhash, instructions = []\<rparr>"

definition transaction_add :: "transaction \<Rightarrow> instruction \<Rightarrow> transaction" where
  "transaction_add t i = t\<lparr>instructions := instructions t @ [i]\<rparr>"

definition instruction_types :: "transaction \<Rightarrow> instruction_type list" where
  "instruction_types t = map instruction_type_of (instructions t)"



section \<open>The libraries and the ledger\<close>

record message =
  numRequiredSignatures :: nat

text \<open>
  The pure functions of the libraries and of the engine that the code calls.
  \<^verbatim>\<open>new PublicKey(s)\<close> throws on a text that is no key; \<^verbatim>\<open>getAssociatedTokenAddress\<close>
  throws for an owner off the curve. \<open>Math_pow10 d\<close> is \<^verbatim>\<open>Math.pow(10, d)\<close>, whose accuracy
  the language leaves to the engine. \<open>encodeU64 n\<close> says whether the token library's
  64-bit layout encodes the integer \<open>n\<close> without throwing.
\<close>

record sdk =
  isPublicKey :: "string \<Rightarrow> bool"
  findMetadataAddress :: "pubkey \<Rightarrow> pubkey"
  getAssociatedTokenAddress :: "pubkey \<Rightarrow> pubkey \<Rightarrow> error + pubkey"
  compileMessage :: "transaction \<Rightarrow> message"
  Math_pow10 :: "nat \<Rightarrow> number"
  encodeU64 :: "int \<Rightarrow> bool"

definition new_PublicKey :: "sdk \<Rightarrow> string \<Rightarrow> error + pubkey" where
  "new_PublicKey lib s = (if isPublicKey lib s then Inr s else Inl (Thrown ''Invalid public key input''))"

text \<open>
  \<^verbatim>\<open>Math.pow(10, decimals)\<close> for a \<^verbatim>\<open>decimals\<close> that may be \<^verbatim>\<open>undefined\<close> (\<open>None\<close>): then
  the power is \<^verbatim>\<open>NaN\<close>.
\<close>

definition Math_pow :: "sdk \<Rightarrow> nat option \<Rightarrow> number" where
  "Math_pow lib d = (case d of None \<Rightarrow> NaN | Some n \<Rightarrow> Math_pow10 lib n)"

text \<open>
  \<^verbatim>\<open>createMintToInstruction\<close> and \<^verbatim>\<open>createBurnInstruction\<close> encode \<^verbatim>\<open>BigInt(amount)\<close>:
  \<^verbatim>\<open>BigInt\<close> throws a RangeError for a number that is not a whole finite number, and the
  encoding may throw for the integer. The instruction keeps the number it was given.
\<close>

definition createMintToInstruction ::
  "sdk \<Rightarrow> pubkey \<Rightarrow> pubkey \<Rightarrow> pubkey \<Rightarrow> number \<Rightarrow> error + instruction" where
  "createMintToInstruction lib mint destination authority amount =
     (case amount of
        Finite a \<Rightarrow>
          if of_int \<lfloor>a\<rfloor> \<noteq> a then Inl (Thrown ''RangeError'')
          else if encodeU64 lib \<lfloor>a\<rfloor> then Inr (MintTo mint destination authority amount)
          else Inl (Thrown ''amount is not encodable'')
      | NaN \<Rightarrow> Inl (Thrown ''RangeError'')
      | PosInfinity \<Rightarrow> Inl (Thrown ''RangeError'')
      | NegInfinity \<Rightarrow> Inl (Thrown ''RangeError''))"

definition createBurnInstruction ::
  "sdk \<Rightarrow> pubkey \<Rightarrow> pubkey \<Rightarrow> pubkey \<Rightarrow> number \<Rightarrow> error + instruction" where
  "createBurnInstruction lib account mint owner amount =
     (case amount of
        Finite a \<Rightarrow>
          if of_int \<lfloor>a\<rfloor> \<noteq> a then Inl (Thrown ''RangeError'')
          else if encodeU64 lib \<lfloor>a\<rfloor> then Inr (Burn account mint owner amount)
          else Inl (Thrown ''amount is not encodable'')
      | NaN \<Rightarrow> Inl (Thrown ''RangeError'')
      | PosInfinity \<Rightarrow> Inl (Thrown ''RangeError'')
      | NegInfinity \<Rightarrow> Inl (Thrown ''RangeError''))"

record mint_info =
  info_decimals :: nat
  info_mintAuthority :: "pubkey option"
  info_freezeAuthority :: "pubkey option"

text \<open>
  What \<^verbatim>\<open>getParsedAccountInfo\<close> gives in \<^verbatim>\<open>value.data\<close>: raw bytes, or a parsed object
  with its \<^verbatim>\<open>type\<close> and \<^verbatim>\<open>info\<close>. \<open>None\<close> is \<^verbatim>\<open>value: null\<close>. \<open>Parsed ty info\<close> carries the
  \<^verbatim>\<open>info\<close> of a mint (decimals and the two authorities, \<^verbatim>\<open>null\<close> as \<open>None\<close>; its supply is
  display only). \<open>ParsedOther\<close> is a parsed account that is no mint (a token account): its
  \<^verbatim>\<open>type\<close> is not \<^verbatim>\<open>'mint'\<close> and its \<^verbatim>\<open>info\<close> has no \<^verbatim>\<open>decimals\<close>.
\<close>

datatype account_data = RawData | Parsed string mint_info | ParsedOther

record token_account =
  account_amount :: nat
  isFrozen :: bool

text \<open>
  The ledger as one snapshot: each RPC either throws (\<open>Inl\<close>) or answers.
  \<open>getFeeForMessage\<close> is \<open>None\<close> when the connection has no such method; its answer and
  the answer of \<open>getFeeCalculatorForBlockhash\<close> carry \<^verbatim>\<open>value: null\<close> as \<open>None\<close>.
\<close>

record connection =
  getMinimumBalanceForRentExemption :: "nat \<Rightarrow> error + nat"
  getLatestBlockhash :: "error + string"
  getBalance :: "pubkey \<Rightarrow> error + nat"
  getFeeForMessage :: "(message \<Rightarrow> error + nat option) option"
  getFeeCalculatorForBlockhash :: "string \<Rightarrow> error + nat option"
  getParsedAccountInfo :: "pubkey \<Rightarrow> error + account_data option"
  getAccount :: "pubkey \<Rightarrow> error + token_account"

definition MINT_SIZE :: nat where
  "MINT_SIZE = 82"

definition AccountLayout_span :: nat where
  "AccountLayout_span = 165"

definition TOKEN_PROGRAM_ID :: pubkey where
  "TOKEN_PROGRAM_ID = ''TokenkegQfeZyiNwAJbNbGKPFXCWuBvf9Ss623VQ5DA''"

definition getMinimumBalanceForRentExemptMint :: "connection \<Rightarrow> error + nat" where
  "getMinimumBalanceForRentExemptMint c = getMinimumBalanceForRentExemption c MINT_SIZE"

section \<open>createTokenWithUpload.ts\<close>

text \<open>
  \<^verbatim>\<open>UltraCheapTokenData\<close> and \<^verbatim>\<open>CoinFormData\<close>; the second has every field of the first.
  An optional flag that is \<^verbatim>\<open>undefined\<close> is \<open>False\<close>, as \<^verbatim>\<open>if (data.revokeMintAuthority)\<close>
  reads it. \<open>imageFile\<close> is an opaque handle; \<open>supply'\<close> is the field \<^verbatim>\<open>supply\<close>.
\<close>

record UltraCheapTokenData =
  name :: string
  symbol :: string
  decimals :: nat
  supply' :: number

record CoinFormData = UltraCheapTokenData +
  description :: string
  imageFile :: "string option"
  revokeMintAuthority :: bool
  revokeFreezeAuthority :: bool

record metadata_result =
  metadataUrl :: string
  imageUrl :: "string option"

text \<open>
  Lines 98 to 195 of \<^verbatim>\<open>createToken\<close>: the transaction, from the values fetched before.
  \<^verbatim>\<open>createMintToInstruction\<close> may throw; then no transaction is built.
\<close>

definition createToken_transaction ::
  "sdk \<Rightarrow> pubkey \<Rightarrow> pubkey \<Rightarrow> pubkey \<Rightarrow> nat \<Rightarrow> pubkey \<Rightarrow> string \<Rightarrow> string \<Rightarrow> CoinFormData
     \<Rightarrow> error + transaction" where
  "createToken_transaction lib publicKey mintKeypair metadataPDA mintRent associatedTokenAddress
       metadataUri blockhash data =
     (let transaction = new_Transaction (Some publicKey) (Some blockhash);
          transaction = transaction_add transaction
            (CreateAccount publicKey mintKeypair MINT_SIZE mintRent TOKEN_PROGRAM_ID);
          transaction = transaction_add transaction
            (InitializeMint mintKeypair (decimals data) publicKey (Some publicKey));
          transaction = transaction_add transaction
            (CreateMetadataAccountV3 metadataPDA mintKeypair publicKey publicKey publicKey
               (name data) (symbol data) metadataUri);
          transaction = transaction_add transaction
            (CreateAssociatedTokenAccount publicKey associatedTokenAddress publicKey mintKeypair);
          mintAmount = js_times (supply' data) (Math_pow10 lib (decimals data))
      in case createMintToInstruction lib mintKeypair associatedTokenAddress publicKey mintAmount of
           Inl e \<Rightarrow> Inl e
         | Inr mintTo \<Rightarrow>
             (let transaction = transaction_add transaction mintTo;
                  transaction = (if revokeMintAuthority data
                    then transaction_add transaction
                      (SetAuthority mintKeypair publicKey AuthorityType_MintTokens None)
                    else transaction);
                  transaction = (if revokeFreezeAuthority data
                    then transaction_add transaction
                      (SetAuthority mintKeypair publicKey AuthorityType_FreezeAccount None)
                    else transaction)
              in Inr transaction))"

text \<open>
  \<^verbatim>\<open>createToken\<close> up to its call of \<^verbatim>\<open>sendTransaction\<close>: the transaction it hands over,
  or the error thrown before. \<open>createTokenMetadata\<close> is the upload service, called with
  the mint's key and the form data; it answers, or throws an error with a message
  (\<open>Inl\<close>), which \<open>createToken\<close> wraps.
\<close>

definition createToken ::
  "sdk \<Rightarrow> connection \<Rightarrow> (pubkey \<Rightarrow> CoinFormData \<Rightarrow> string + metadata_result) \<Rightarrow>
     pubkey \<Rightarrow> pubkey \<Rightarrow> CoinFormData \<Rightarrow> error + transaction" where
  "createToken lib conn createTokenMetadata publicKey mintKeypair data =
     (let metadataPDA = findMetadataAddress lib mintKeypair in
      case getMinimumBalanceForRentExemptMint conn of Inl e \<Rightarrow> Inl e | Inr mintRent \<Rightarrow>
     (case getAssociatedTokenAddress lib mintKeypair publicKey of Inl e \<Rightarrow> Inl e
      | Inr associatedTokenAddress \<Rightarrow>
     (case createTokenMetadata mintKeypair data of
        Inl m \<Rightarrow> Inl (MetadataFailed m)
      | Inr result \<Rightarrow>
     (case getLatestBlockhash conn of Inl e \<Rightarrow> Inl e | Inr blockhash \<Rightarrow>
        createToken_transaction lib publicKey mintKeypair metadataPDA mintRent
          associatedTokenAddress (metadataUrl result) blockhash data))))"

text \<open>
  Lines 259 to 305 of \<^verbatim>\<open>createUltraCheapToken\<close>, and the function up to its call of
  \<^verbatim>\<open>sendTransaction\<close>. The balance is fetched and only logged.
\<close>

definition createUltraCheapToken_transaction ::
  "sdk \<Rightarrow> pubkey \<Rightarrow> pubkey \<Rightarrow> nat \<Rightarrow> pubkey \<Rightarrow> string \<Rightarrow> 'a UltraCheapTokenData_scheme
     \<Rightarrow> error + transaction" where
  "createUltraCheapToken_transaction lib publicKey mintKeypair mintRent associatedTokenAddress
       blockhash data =
     (let transaction = new_Transaction (Some publicKey) (Some blockhash);
          transaction = transaction_add transaction
            (CreateAccount publicKey mintKeypair MINT_SIZE mintRent TOKEN_PROGRAM_ID);
          transaction = transaction_add transaction
            (InitializeMint mintKeypair (decimals data) publicKey (Some publicKey));
          transaction = transaction_add transaction
            (CreateAssociatedTokenAccount publicKey associatedTokenAddress publicKey mintKeypair);
          mintAmount = js_times (supply' data) (Math_pow10 lib (decimals data))
      in case createMintToInstruction lib mintKeypair associatedTokenAddress publicKey mintAmount of
           Inl e \<Rightarrow> Inl e
         | Inr mintTo \<Rightarrow> Inr (transaction_add transaction mintTo))"


text \<open>
  Lines 391 to 483 of \<^verbatim>\<open>estimateCreateTokenFee\<close>: the estimator's own copy of the
  transaction, with the placeholder URI of line 386.
\<close>

definition placeholder_metadataUri :: string where
  "placeholder_metadataUri = ''https://example.com/metadata.json''"

definition estimateCreateTokenFee_transaction ::
  "sdk \<Rightarrow> pubkey \<Rightarrow> pubkey \<Rightarrow> pubkey \<Rightarrow> nat \<Rightarrow> pubkey \<Rightarrow> string \<Rightarrow> CoinFormData
     \<Rightarrow> error + transaction" where
  "estimateCreateTokenFee_transaction lib publicKey mintKeypair metadataPDA mintRent
       associatedTokenAddress blockhash data =
     (let metadataUri = placeholder_metadataUri;
          transaction = new_Transaction (Some publicKey) (Some blockhash);
          transaction = transaction_add transaction
            (CreateAccount publicKey mintKeypair MINT_SIZE mintRent TOKEN_PROGRAM_ID);
          transaction = transaction_add transaction
            (InitializeMint mintKeypair (decimals data) publicKey (Some publicKey));
          transaction = transaction_add transaction
            (CreateMetadataAccountV3 metadataPDA mintKeypair publicKey publicKey publicKey
               (name data) (symbol data) metadataUri);
          transaction = transaction_add transaction
            (CreateAssociatedTokenAccount publicKey associatedTokenAddress publicKey mintKeypair);
          mintAmount = js_times (supply' data) (Math_pow10 lib (decimals data))
      in case createMintToInstruction lib mintKeypair associatedTokenAddress publicKey mintAmount of
           Inl e \<Rightarrow> Inl e
         | Inr mintTo \<Rightarrow>
             (let transaction = transaction_add transaction mintTo;
                  transaction = (if revokeMintAuthority data
                    then transaction_add transaction
                      (SetAuthority mintKeypair publicKey AuthorityType_MintTokens None)
                    else transaction);
                  transaction = (if revokeFreezeAuthority data
                    then transaction_add transaction
                      (SetAuthority mintKeypair publicKey AuthorityType_FreezeAccount None)
                    else transaction)
              in Inr transaction))"

text \<open>
  The estimators (lines 353 to 526 and 532 to 639); \<^verbatim>\<open>catch (error) { throw error; }\<close>
  passes every error on. \<^verbatim>\<open>0.01 * 1000000000\<close> is the double \<open>10000000\<close>. With
  \<^verbatim>\<open>getFeeForMessage\<close> the quoted \<^verbatim>\<open>value\<close> is added as it comes: JavaScript's
  \<^verbatim>\<open>n + null\<close> is \<open>n\<close>, so a \<^verbatim>\<open>null\<close> quote adds \<open>0\<close>. The fallback checks for \<^verbatim>\<open>null\<close>
  and throws.
\<close>

definition estimateCreateTokenFee ::
  "sdk \<Rightarrow> connection \<Rightarrow> pubkey \<Rightarrow> pubkey \<Rightarrow> CoinFormData \<Rightarrow> error + nat" where
  "estimateCreateTokenFee lib conn publicKey mintKeypair data =
     (let metadataPDA = findMetadataAddress lib mintKeypair in
      case getMinimumBalanceForRentExemptMint conn of Inl e \<Rightarrow> Inl e | Inr mintRent \<Rightarrow>
     (case getMinimumBalanceForRentExemption conn AccountLayout_span of Inl e \<Rightarrow> Inl e
      | Inr tokenAccountRent \<Rightarrow>
     (case getMinimumBalanceForRentExemption conn 607 of Inl e \<Rightarrow> Inl e
      | Inr metadataAccountRent \<Rightarrow>
     (case getAssociatedTokenAddress lib mintKeypair publicKey of Inl e \<Rightarrow> Inl e
      | Inr associatedTokenAddress \<Rightarrow>
     (case getLatestBlockhash conn of Inl e \<Rightarrow> Inl e | Inr blockhash \<Rightarrow>
     (case estimateCreateTokenFee_transaction lib publicKey mintKeypair metadataPDA
            mintRent associatedTokenAddress blockhash data of Inl e \<Rightarrow> Inl e
      | Inr transaction \<Rightarrow>
     (let message = compileMessage lib transaction;
          metaplexProtocolFee = (10000000 :: nat)
      in case getFeeForMessage conn of
           Some getFee \<Rightarrow>
             (case getFee message of Inl e \<Rightarrow> Inl e
              | Inr value \<Rightarrow>
                  Inr (mintRent + tokenAccountRent + metadataAccountRent + metaplexProtocolFee
                       + (case value of None \<Rightarrow> 0 | Some v \<Rightarrow> v)))
         | None \<Rightarrow>
             (case getFeeCalculatorForBlockhash conn blockhash of Inl e \<Rightarrow> Inl e
              | Inr None \<Rightarrow> Inl FeeCalculatorUnavailable
              | Inr (Some lamportsPerSignature) \<Rightarrow>
                  (let requiredSigs = numRequiredSignatures message;
                       transactionFee = lamportsPerSignature * requiredSigs
                   in Inr (mintRent + tokenAccountRent + metadataAccountRent
                           + metaplexProtocolFee + transactionFee))))))))))"

definition estimateUltraCheapTokenFee_transaction ::
  "sdk \<Rightarrow> pubkey \<Rightarrow> pubkey \<Rightarrow> nat \<Rightarrow> pubkey \<Rightarrow> string \<Rightarrow> 'a UltraCheapTokenData_scheme
     \<Rightarrow> error + transaction" where
  "estimateUltraCheapTokenFee_transaction lib publicKey mintKeypair mintRent associatedTokenAddress
       blockhash data =
     (let transaction = new_Transaction (Some publicKey) (Some blockhash);
          transaction = transaction_add transaction
            (CreateAccount publicKey mintKeypair MINT_SIZE mintRent TOKEN_PROGRAM_ID);
          transaction = transaction_add transaction
            (InitializeMint mintKeypair (decimals data) publicKey (Some publicKey));
          transaction = transaction_add transaction
            (CreateAssociatedTokenAccount publicKey associatedTokenAddress publicKey mintKeypair);
          mintAmount = js_times (supply' data) (Math_pow10 lib (decimals data))
      in case createMintToInstruction lib mintKeypair associatedTokenAddress publicKey mintAmount of
           Inl e \<Rightarrow> Inl e
         | Inr mintTo \<Rightarrow> Inr (transaction_add transaction mintTo))"

definition estimateUltraCheapTokenFee ::
  "sdk \<Rightarrow> connection \<Rightarrow> pubkey \<Rightarrow> pubkey \<Rightarrow> 'a UltraCheapTokenData_scheme \<Rightarrow> error + nat" where
  "estimateUltraCheapTokenFee lib conn publicKey mintKeypair data =
     (case getMinimumBalanceForRentExemptMint conn of Inl e \<Rightarrow> Inl e | Inr mintRent \<Rightarrow>
     (case getMinimumBalanceForRentExemption conn AccountLayout_span of Inl e \<Rightarrow> Inl e
      | Inr tokenAccountRent \<Rightarrow>
     (case getAssociatedTokenAddress lib mintKeypair publicKey of Inl e \<Rightarrow> Inl e
      | Inr associatedTokenAddress \<Rightarrow>
     (case getLatestBlockhash conn of Inl e \<Rightarrow> Inl e | Inr blockhash \<Rightarrow>
     (case estimateUltraCheapTokenFee_transaction lib publicKey mintKeypair mintRent
            associatedTokenAddress blockhash data of Inl e \<Rightarrow> Inl e
      | Inr transaction \<Rightarrow>
     (let message = compileMessage lib transaction
      in case getFeeForMessage conn of
           Some getFee \<Rightarrow>
             (case getFee message of Inl e \<Rightarrow> Inl e
              | Inr value \<Rightarrow>
                  Inr (mintRent + tokenAccountRent + (case value of None \<Rightarrow> 0 | Some v \<Rightarrow> v)))
         | None \<Rightarrow>
             (case getFeeCalculatorForBlockhash conn blockhash of Inl e \<Rightarrow> Inl e
              | Inr None \<Rightarrow> Inl FeeCalculatorUnavailable
              | Inr (Some lamportsPerSignature) \<Rightarrow>
                  (let requiredSigs = numRequiredSignatures message;
                       transactionFee = lamportsPerSignature * requiredSigs
                   in Inr (mintRent + tokenAccountRent + transactionFee)))))))))"

section \<open>RevokeAuthoritiesClient\<close>

record RevokeFormData =
  tokenAddress :: string
  revokeMintAuthority :: bool
  revokeFreezeAuthority :: bool

text \<open>
  The fields of the \<^verbatim>\<open>tokenInfo\<close> state that \<^verbatim>\<open>onSubmit\<close> reads; \<open>None\<close> is \<^verbatim>\<open>null\<close> or
  \<^verbatim>\<open>undefined\<close>. The other fields are display only.
\<close>

record RevokeTokenInfo =
  mintAuthority :: "string option"
  freezeAuthority :: "string option"

text \<open>\<^verbatim>\<open>!a\<close> for an optional string: \<^verbatim>\<open>null\<close>, \<^verbatim>\<open>undefined\<close> and the empty string.\<close>

definition falsy_string :: "string option \<Rightarrow> bool" where
  "falsy_string a = (a = None \<or> a = Some [])"

text \<open>
  \<^verbatim>\<open>revokeSchema\<close>: whether the zod schema accepts the form data. \<^verbatim>\<open>form.handleSubmit\<close>
  calls \<^verbatim>\<open>onSubmit\<close> only for accepted data.
\<close>

definition revokeSchema :: "sdk \<Rightarrow> RevokeFormData \<Rightarrow> bool" where
  "revokeSchema lib data =
     ((1 \<le> length (tokenAddress data) \<and> isPublicKey lib (tokenAddress data))
      \<and> (revokeMintAuthority data \<or> revokeFreezeAuthority data))"

text \<open>
  \<^verbatim>\<open>fetchTokenInfo\<close>: \<open>Inr\<close> is the new \<^verbatim>\<open>tokenInfo\<close>; on \<open>Inl\<close> the error is shown and
  \<^verbatim>\<open>tokenInfo\<close> becomes \<^verbatim>\<open>null\<close>. \<^verbatim>\<open>a === publicKey?.toString()\<close> is false without a wallet.
\<close>

definition RevokeAuthoritiesClient_fetchTokenInfo ::
  "sdk \<Rightarrow> connection \<Rightarrow> pubkey option \<Rightarrow> string \<Rightarrow> error + RevokeTokenInfo" where
  "RevokeAuthoritiesClient_fetchTokenInfo lib conn publicKey address =
     (case new_PublicKey lib address of Inl e \<Rightarrow> Inl e | Inr mintPubkey \<Rightarrow>
     (case getParsedAccountInfo conn mintPubkey of Inl e \<Rightarrow> Inl e
      | Inr None \<Rightarrow> Inl NotATokenMint
      | Inr (Some RawData) \<Rightarrow> Inl NotATokenMint
      | Inr (Some ParsedOther) \<Rightarrow> Inl AddressIsNotAMint
      | Inr (Some (Parsed ty info)) \<Rightarrow>
          if ty \<noteq> ''mint'' then Inl AddressIsNotAMint
          else
            (let hasMintAuthority =
                   (case publicKey of None \<Rightarrow> False | Some k \<Rightarrow> info_mintAuthority info = Some k);
                 hasFreezeAuthority =
                   (case publicKey of None \<Rightarrow> False | Some k \<Rightarrow> info_freezeAuthority info = Some k)
             in if \<not> hasMintAuthority \<and> \<not> hasFreezeAuthority then Inl NoAuthority
                else Inr \<lparr>mintAuthority = info_mintAuthority info,
                          freezeAuthority = info_freezeAuthority info\<rparr>)))"

text \<open>
  \<^verbatim>\<open>onSubmit\<close> up to its call of \<^verbatim>\<open>sendTransaction\<close>: the error shown, or the
  transaction handed over. The checks are in the source's order (lines 552 to 581).
\<close>

definition RevokeAuthoritiesClient_onSubmit ::
  "sdk \<Rightarrow> pubkey option \<Rightarrow> RevokeTokenInfo option \<Rightarrow> RevokeFormData \<Rightarrow> error + transaction" where
  "RevokeAuthoritiesClient_onSubmit lib publicKey tokenInfo data =
     (case publicKey of None \<Rightarrow> Inl WalletNotConnected | Some publicKey \<Rightarrow>
     (case tokenInfo of None \<Rightarrow> Inl NoTokenSelected | Some tokenInfo \<Rightarrow>
        if revokeMintAuthority data \<and> mintAuthority tokenInfo \<noteq> Some publicKey
        then Inl NotMintAuthority
        else if revokeFreezeAuthority data \<and> freezeAuthority tokenInfo \<noteq> Some publicKey
        then Inl NotFreezeAuthority
        else if revokeMintAuthority data \<and> falsy_string (mintAuthority tokenInfo)
        then Inl MintAuthorityAlreadyRevoked
        else if revokeFreezeAuthority data \<and> falsy_string (freezeAuthority tokenInfo)
        then Inl FreezeAuthorityAlreadyRevoked
        else
          (case new_PublicKey lib (tokenAddress data) of Inl e \<Rightarrow> Inl e | Inr mintPubkey \<Rightarrow>
            (let transaction = new_Transaction None None;
                 transaction = (if revokeMintAuthority data
                   then transaction_add transaction
                     (SetAuthority mintPubkey publicKey AuthorityType_MintTokens None)
                   else transaction);
                 transaction = (if revokeFreezeAuthority data
                   then transaction_add transaction
                     (SetAuthority mintPubkey publicKey AuthorityType_FreezeAccount None)
                   else transaction)
             in Inr transaction))))"

definition RevokeAuthoritiesClient_handleSubmit ::
  "sdk \<Rightarrow> pubkey option \<Rightarrow> RevokeTokenInfo option \<Rightarrow> RevokeFormData \<Rightarrow> error + transaction" where
  "RevokeAuthoritiesClient_handleSubmit lib publicKey tokenInfo data =
     (if revokeSchema lib data then RevokeAuthoritiesClient_onSubmit lib publicKey tokenInfo data
      else Inl ValidationFailed)"

section \<open>FreezeTokensClient\<close>

datatype freeze_action = freeze | unfreeze

record FreezeFormData =
  tokenAddress :: string
  targetAddress :: string
  action :: freeze_action

text \<open>The \<^verbatim>\<open>accountInfo\<close> state; its \<^verbatim>\<open>balance\<close> is display only.\<close>

record AccountInfo =
  exists :: bool
  frozen :: bool

text \<open>
  \<^verbatim>\<open>fetchAccountInfo\<close>: the new \<^verbatim>\<open>accountInfo\<close> state. A failed lookup of the token
  account gives \<^verbatim>\<open>{exists: false, frozen: false}\<close>; an error before it gives \<^verbatim>\<open>null\<close>.
\<close>

definition FreezeTokensClient_fetchAccountInfo ::
  "sdk \<Rightarrow> connection \<Rightarrow> string \<Rightarrow> string \<Rightarrow> AccountInfo option" where
  "FreezeTokensClient_fetchAccountInfo lib conn token target =
     (case new_PublicKey lib token of Inl e \<Rightarrow> None | Inr mintPubkey \<Rightarrow>
     (case new_PublicKey lib target of Inl e \<Rightarrow> None | Inr targetPubkey \<Rightarrow>
     (case getAssociatedTokenAddress lib mintPubkey targetPubkey of Inl e \<Rightarrow> None
      | Inr tokenAccount \<Rightarrow>
     (case getAccount conn tokenAccount of
        Inr accountData \<Rightarrow> Some \<lparr>exists = True, frozen = isFrozen accountData\<rparr>
      | Inl e \<Rightarrow> Some \<lparr>exists = False, frozen = False\<rparr>))))"

text \<open>
  \<^verbatim>\<open>onSubmit\<close> up to its call of \<^verbatim>\<open>sendTransaction\<close> (lines 173 to 248). The state check
  runs only when \<^verbatim>\<open>accountInfo\<close> is set; the live lookup \<^verbatim>\<open>getAccount\<close> follows.
\<close>

definition FreezeTokensClient_onSubmit ::
  "sdk \<Rightarrow> connection \<Rightarrow> pubkey option \<Rightarrow> AccountInfo option \<Rightarrow> FreezeFormData
     \<Rightarrow> error + transaction" where
  "FreezeTokensClient_onSubmit lib conn publicKey accountInfo data =
     (case publicKey of None \<Rightarrow> Inl WalletNotConnected | Some publicKey \<Rightarrow>
     (case
        (case accountInfo of None \<Rightarrow> None
         | Some accountInfo \<Rightarrow>
             if action data = freeze \<and> exists accountInfo \<and> frozen accountInfo
             then Some AlreadyFrozen
             else if action data = unfreeze \<and> (\<not> exists accountInfo \<or> \<not> frozen accountInfo)
             then Some (if exists accountInfo then AccountNotFrozen else AccountDoesNotExist)
             else None)
      of Some e \<Rightarrow> Inl e
      | None \<Rightarrow>
     (case new_PublicKey lib (tokenAddress data) of Inl e \<Rightarrow> Inl e | Inr mintPubkey \<Rightarrow>
     (case new_PublicKey lib (targetAddress data) of Inl e \<Rightarrow> Inl e | Inr targetPubkey \<Rightarrow>
     (case getAssociatedTokenAddress lib mintPubkey targetPubkey of Inl e \<Rightarrow> Inl e
      | Inr tokenAccount \<Rightarrow>
        (let transaction = new_Transaction None None;
             accountExists = (case getAccount conn tokenAccount of Inr a \<Rightarrow> True | Inl e \<Rightarrow> False)
         in if \<not> accountExists \<and> action data \<noteq> freeze then Inl UnfreezeAccountMissing
            else
              (let transaction = (if \<not> accountExists
                     then transaction_add transaction
                       (CreateAssociatedTokenAccount publicKey tokenAccount targetPubkey mintPubkey)
                     else transaction);
                   transaction = (if action data = freeze
                     then transaction_add transaction
                       (FreezeAccount tokenAccount mintPubkey publicKey)
                     else transaction_add transaction
                       (ThawAccount tokenAccount mintPubkey publicKey))
               in Inr transaction)))))))"

section \<open>MintTokensClient\<close>

record MintFormData =
  tokenAddress :: string
  recipientAddress :: string
  amount :: number

text \<open>
  \<^verbatim>\<open>onSubmit\<close> up to its call of \<^verbatim>\<open>sendTransaction\<close> (lines 268 to 323). The handler
  reads \<^verbatim>\<open>info.decimals\<close> of whatever parsed account it finds (\<^verbatim>\<open>undefined\<close> for an account
  that is no mint); any failure of \<^verbatim>\<open>getAccount\<close> counts as a missing recipient account;
  \<^verbatim>\<open>createMintToInstruction\<close> may throw, and then nothing is submitted.
\<close>

definition MintTokensClient_onSubmit ::
  "sdk \<Rightarrow> connection \<Rightarrow> pubkey option \<Rightarrow> MintFormData \<Rightarrow> error + transaction" where
  "MintTokensClient_onSubmit lib conn publicKey data =
     (case publicKey of None \<Rightarrow> Inl WalletNotConnected | Some publicKey \<Rightarrow>
     (case new_PublicKey lib (tokenAddress data) of Inl e \<Rightarrow> Inl e | Inr mintPubkey \<Rightarrow>
     (case new_PublicKey lib (recipientAddress data) of Inl e \<Rightarrow> Inl e
      | Inr recipientPubkey \<Rightarrow>
     (case getParsedAccountInfo conn mintPubkey of Inl e \<Rightarrow> Inl e
      | Inr None \<Rightarrow> Inl InvalidTokenAddress
      | Inr (Some RawData) \<Rightarrow> Inl InvalidTokenAddress
      | Inr (Some parsed) \<Rightarrow>
        (let decimals = (case parsed of Parsed ty info \<Rightarrow> Some (info_decimals info) | _ \<Rightarrow> None);
             mintAmount = Math_floor (js_times (amount data) (Math_pow lib decimals))
         in case getAssociatedTokenAddress lib mintPubkey recipientPubkey of Inl e \<Rightarrow> Inl e
            | Inr recipientTokenAccount \<Rightarrow>
              (let transaction = new_Transaction None None;
                   transaction = (case getAccount conn recipientTokenAccount of
                       Inr a \<Rightarrow> transaction
                     | Inl e \<Rightarrow> transaction_add transaction
                         (CreateAssociatedTokenAccount publicKey recipientTokenAccount
                            recipientPubkey mintPubkey))
               in case createMintToInstruction lib mintPubkey recipientTokenAccount publicKey
                         mintAmount of
                    Inl e \<Rightarrow> Inl e
                  | Inr mintTo \<Rightarrow> Inr (transaction_add transaction mintTo)))))))"

section \<open>BurnTokensClient\<close>

record BurnFormData =
  tokenAddress :: string
  amount :: number

text \<open>
  The fields of the \<^verbatim>\<open>tokenInfo\<close> state that \<^verbatim>\<open>onSubmit\<close> reads; \<open>userBalanceRaw\<close> is
  optional in the source.
\<close>

record BurnTokenInfo =
  tokenInfo_decimals :: nat
  userBalanceRaw :: "number option"

text \<open>
  \<^verbatim>\<open>fetchTokenInfo\<close>: \<open>None\<close> when no wallet is connected (nothing changes); otherwise the
  error shown or the new \<^verbatim>\<open>tokenInfo\<close>. A failed lookup of the user's token account gives
  balance \<open>0\<close>.
\<close>

definition BurnTokensClient_fetchTokenInfo ::
  "sdk \<Rightarrow> connection \<Rightarrow> pubkey option \<Rightarrow> string \<Rightarrow> (error + BurnTokenInfo) option" where
  "BurnTokensClient_fetchTokenInfo lib conn publicKey address =
     (case publicKey of None \<Rightarrow> None | Some publicKey \<Rightarrow> Some
     (case new_PublicKey lib address of Inl e \<Rightarrow> Inl e | Inr mintPubkey \<Rightarrow>
     (case getParsedAccountInfo conn mintPubkey of Inl e \<Rightarrow> Inl e
      | Inr None \<Rightarrow> Inl NotATokenMint
      | Inr (Some RawData) \<Rightarrow> Inl NotATokenMint
      | Inr (Some ParsedOther) \<Rightarrow> Inl AddressIsNotAMint
      | Inr (Some (Parsed ty info)) \<Rightarrow>
          if ty \<noteq> ''mint'' then Inl AddressIsNotAMint
          else
            (case getAssociatedTokenAddress lib mintPubkey publicKey of Inl e \<Rightarrow> Inl e
             | Inr userTokenAccount \<Rightarrow>
                 (let userBalance = (case getAccount conn userTokenAccount of
                          Inr accountData \<Rightarrow> Number_of_bigint (account_amount accountData)
                        | Inl e \<Rightarrow> Finite 0)
                  in Inr \<lparr>tokenInfo_decimals = info_decimals info,
                           userBalanceRaw = Some userBalance\<rparr>)))))"

text \<open>
  \<^verbatim>\<open>onSubmit\<close> up to its call of \<^verbatim>\<open>sendTransaction\<close> (lines 136 to 182).
  \<^verbatim>\<open>!tokenInfo.userBalanceRaw || tokenInfo.userBalanceRaw === 0\<close> holds for an unset
  balance, for \<open>0\<close> and for \<^verbatim>\<open>NaN\<close>. \<^verbatim>\<open>createBurnInstruction\<close> may throw, and then nothing is
  submitted.
\<close>

definition BurnTokensClient_onSubmit ::
  "sdk \<Rightarrow> pubkey option \<Rightarrow> BurnTokenInfo option \<Rightarrow> BurnFormData \<Rightarrow> error + transaction" where
  "BurnTokensClient_onSubmit lib publicKey tokenInfo data =
     (case publicKey of None \<Rightarrow> Inl WalletNotConnected | Some publicKey \<Rightarrow>
     (case tokenInfo of None \<Rightarrow> Inl NoTokenEntered | Some tokenInfo \<Rightarrow>
     (case userBalanceRaw tokenInfo of None \<Rightarrow> Inl NoTokensToBurn
      | Some balance \<Rightarrow>
        if falsy_number balance \<or> balance = Finite 0 then Inl NoTokensToBurn
        else
          (let burnAmountRaw =
                 Math_floor (js_times (amount data) (Math_pow10 lib (tokenInfo_decimals tokenInfo)))
           in if js_greater burnAmountRaw balance then Inl InsufficientBalance
              else
                (case new_PublicKey lib (tokenAddress data) of Inl e \<Rightarrow> Inl e
                 | Inr mintPubkey \<Rightarrow>
                (case getAssociatedTokenAddress lib mintPubkey publicKey of Inl e \<Rightarrow> Inl e
                 | Inr userTokenAccount \<Rightarrow>
                   (let transaction = new_Transaction None None
                    in case createBurnInstruction lib userTokenAccount mintPubkey publicKey
                              burnAmountRaw of
                         Inl e \<Rightarrow> Inl e
                       | Inr burn \<Rightarrow> Inr (transaction_add transaction burn))))))))"

section \<open>A concrete ledger\<close>

text \<open>
  A library and a ledger to evaluate the functions on: every text but the empty one is a
  key, \<^verbatim>\<open>Math.pow(10, d)\<close> is the double nearest to \<open>10 ^ d\<close>, the integers from \<open>0\<close> below
  \<open>2^64\<close> are encoded, rent is \<open>(128 + size) * 6960\<close> lamports, the mint at any address has the given
  \<open>info\<close>, the token account at any address is \<open>acct\<close> (absent when \<open>None\<close>), and
  \<^verbatim>\<open>getFeeForMessage\<close> answers \<open>quote\<close> (\<^verbatim>\<open>value: null\<close> when \<open>None\<close>).
\<close>

definition example_sdk :: sdk where
  "example_sdk =
     \<lparr>isPublicKey = (\<lambda>s. s \<noteq> []),
      findMetadataAddress = (\<lambda>m. ''Metadata''),
      getAssociatedTokenAddress = (\<lambda>m ow. Inr ''ATA''),
      compileMessage = (\<lambda>t. \<lparr>numRequiredSignatures = 2\<rparr>),
      Math_pow10 = (\<lambda>d. round_double (10 ^ d)),
      encodeU64 = (\<lambda>n. 0 \<le> n \<and> n < 2 ^ 64)\<rparr>"

definition example_connection :: "mint_info \<Rightarrow> token_account option \<Rightarrow> nat option \<Rightarrow> connection" where
  "example_connection info acct quote =
     \<lparr>getMinimumBalanceForRentExemption = (\<lambda>n. Inr ((128 + n) * 6960)),
      getLatestBlockhash = Inr ''Blockhash'',
      getBalance = (\<lambda>k. Inr 1000000000),
      getFeeForMessage = Some (\<lambda>m. Inr quote),
      getFeeCalculatorForBlockhash = (\<lambda>b. Inr (Some 5000)),
      getParsedAccountInfo = (\<lambda>k. Inr (Some (Parsed ''mint'' info))),
      getAccount = (\<lambda>k. case acct of None \<Rightarrow> Inl (Thrown ''TokenAccountNotFoundError'')
                          | Some a \<Rightarrow> Inr a)\<rparr>"

definition example_info :: mint_info where
  "example_info =
     \<lparr>info_decimals = 9, info_mintAuthority = Some ''Payer'', info_freezeAuthority = Some ''Payer''\<rparr>"

definition example_upload :: "pubkey \<Rightarrow> CoinFormData \<Rightarrow> string + metadata_result" where
  "example_upload mintId data =
     Inr \<lparr>metadataUrl = ''https://example.org/'' @ mintId, imageUrl = None\<rparr>"

definition example_coin :: "nat \<Rightarrow> rat \<Rightarrow> bool \<Rightarrow> bool \<Rightarrow> CoinFormData" where
  "example_coin d s revokeMint revokeFreeze =
     \<lparr>name = ''Coin'', symbol = ''COIN'', decimals = d, supply' = Finite s,
      description = ''A coin'', imageFile = None,
      revokeMintAuthority = revokeMint, revokeFreezeAuthority = revokeFreeze\<rparr>"

section \<open>Doubles\<close>

lemma bit_length_0 [simp]: "bit_length 0 = 0"
  by (simp add: bit_length.simps)

lemma bit_length_pos: "0 < n \<Longrightarrow> bit_length n = Suc (bit_length (n div 2))"
  by (subst bit_length.simps) simp

lemma bit_length_numeral [simp]:
  "bit_length (numeral k) = Suc (bit_length (numeral k div 2))"
  by (rule bit_length_pos) simp

lemma bit_length_1 [simp]: "bit_length (Suc 0) = Suc 0"
  by (simp add: bit_length_pos)

lemma bit_length_le: "n < 2 ^ k \<Longrightarrow> bit_length n \<le> k"
proof (induction k arbitrary: n)
  case 0
  then show ?case by simp
next
  case (Suc k)
  show ?case
  proof (cases "n = 0")
    case True
    then show ?thesis by simp
  next
    case False
    from Suc.prems have "n div 2 < 2 ^ k" by simp
    then have "bit_length (n div 2) \<le> k" by (rule Suc.IH)
    with False show ?thesis by (simp add: bit_length_pos)
  qed
qed

lemma round_half_even_of_int [simp]: "round_half_even (of_int m) = m"
  by (simp add: round_half_even_def)

text \<open>Every natural number below \<open>2^53\<close> is a double.\<close>

lemma round_double_of_nat:
  assumes "n < 2 ^ 53"
  shows "round_double (of_nat n) = Finite (of_nat n)"
proof (cases "n = 0")
  case True
  then show ?thesis by (simp add: round_double_def)
next
  case False
  define k where "k = bit_length n"
  from False have k1: "1 \<le> k"
    by (simp add: k_def bit_length_pos)
  from assms have k53: "k \<le> 53"
    unfolding k_def by (rule bit_length_le)
  from False have one: "(1::rat) \<le> of_nat n"
    by simp
  have fl: "floor_log2 (of_nat n) = int k - 1"
    using one by (simp add: floor_log2_def k_def)
  have e: "max (int k - 1) (- 1022) = int k - 1"
    using k1 by simp
  have ulp: "pow2 (int k - 1 - 52) = 1 / 2 ^ (53 - k)"
  proof (cases "k = 53")
    case True
    then show ?thesis by (simp add: pow2_def)
  next
    case False
    with k53 have "k < 53" by simp
    then have "nat (53 - int k) = 53 - k" by simp
    with \<open>k < 53\<close> show ?thesis by (simp add: pow2_def)
  qed
  have q: "(of_nat n :: rat) / (1 / 2 ^ (53 - k)) = of_int (int (n * 2 ^ (53 - k)))"
    by simp
  have r: "rat_of_int (int (n * 2 ^ (53 - k))) * (1 / 2 ^ (53 - k)) = of_nat n"
    by simp
  have "(of_nat n :: rat) < 2 ^ 53"
    using assms by (metis of_nat_less_iff of_nat_numeral of_nat_power)
  also have "(2::rat) ^ 53 \<le> 2 ^ 1024"
    by (rule power_increasing) simp_all
  finally have bound: "\<not> (2::rat) ^ 1024 \<le> of_nat n"
    by simp
  from False have sg: "sgn (of_nat n :: rat) = 1"
    by simp
  show ?thesis
    unfolding round_double_def Let_def
    using False bound sg
    by (simp only: abs_of_nat fl e ulp q round_half_even_of_int r of_nat_eq_0_iff if_False
        mult_1 of_nat_0_less_iff)
qed

lemma round_double_numeral [simp]:
  "numeral k < (2::nat) ^ 53 \<Longrightarrow> round_double (numeral k) = Finite (numeral k)"
  using round_double_of_nat [of "numeral k"] by simp

lemma round_double_1 [simp]: "round_double 1 = Finite 1"
  using round_double_of_nat [of 1] by simp


text \<open>
  Above \<open>2^53\<close> a product is rounded: \<open>1000000000000001 * 100\<close> is a multiple of \<open>4\<close> but
  not of the spacing \<open>16\<close> of the doubles around it.
\<close>

lemma round_double_above_2_53 [simp]:
  "round_double 100000000000000100 = Finite 100000000000000096"
proof -
  have a: "\<bar>100000000000000100\<bar> = (100000000000000100 :: rat)"
    by simp
  have e: "max (floor_log2 100000000000000100) (- 1022) - 52 = 4"
    by (simp add: floor_log2_def)
  have ulp: "pow2 4 = 16"
    by (simp add: pow2_def)
  have f: "\<lfloor>(100000000000000100 :: rat) / 16\<rfloor> = 6250000000000006"
    by (rule floor_unique) simp_all
  have rhe: "round_half_even (100000000000000100 / 16) = 6250000000000006"
    unfolding round_half_even_def Let_def f by simp
  show ?thesis
    unfolding round_double_def Let_def a e ulp rhe by simp
qed

text \<open>
  The double nearest to \<open>7 / 10\<close> is \<open>3152519739159347 / 2^52\<close>; ten times it lies half
  way between two doubles and is rounded to \<open>7\<close>, as \<^verbatim>\<open>0.7 * 10\<close> is in JavaScript.
\<close>

lemma seven_tenths_times_ten:
  "js_times (Finite (3152519739159347 / 4503599627370496)) (Finite 10) = Finite 7"
proof -
  have prod: "(3152519739159347 / 4503599627370496 :: rat) * 10 = 15762598695796735 / 2251799813685248"
    by simp
  have a: "\<bar>15762598695796735 / 2251799813685248\<bar> = (15762598695796735 / 2251799813685248 :: rat)"
    by simp
  have f6: "\<lfloor>(15762598695796735 / 2251799813685248 :: rat)\<rfloor> = 6"
    by (rule floor_unique) simp_all
  have e: "max (floor_log2 (15762598695796735 / 2251799813685248)) (- 1022) - 52 = - 50"
    by (simp add: floor_log2_def f6)
  have ulp: "pow2 (- 50) = 1 / 1125899906842624"
    by (simp add: pow2_def)
  have q: "(15762598695796735 / 2251799813685248 :: rat) / (1 / 1125899906842624) = 15762598695796735 / 2"
    by simp
  have f: "\<lfloor>(15762598695796735 / 2 :: rat)\<rfloor> = 7881299347898367"
    by (rule floor_unique) simp_all
  have rhe: "round_half_even (15762598695796735 / 2) = 7881299347898368"
    unfolding round_half_even_def Let_def f by simp
  have "round_double (15762598695796735 / 2251799813685248) = Finite 7"
    unfolding round_double_def Let_def a e ulp q rhe by simp
  then show ?thesis
    by (simp only: js_times.simps prod)
qed


section \<open>The transactions of createToken and of its estimator\<close>

lemma createMintToInstruction_InrD:
  assumes "createMintToInstruction lib mint destination authority amt = Inr i"
  shows "i = MintTo mint destination authority amt
     \<and> (\<exists>q. amt = Finite (of_int q) \<and> encodeU64 lib q)"
proof (cases amt)
  case (Finite a)
  with assms have "of_int \<lfloor>a\<rfloor> = a" and "encodeU64 lib \<lfloor>a\<rfloor>"
    and "i = MintTo mint destination authority amt"
    by (auto simp add: createMintToInstruction_def split: if_splits)
  with Finite show ?thesis by metis
qed (use assms in \<open>simp_all add: createMintToInstruction_def\<close>)

lemma createMintToInstruction_whole:
  assumes "encodeU64 lib q"
  shows "createMintToInstruction lib mint destination authority (Finite (of_int q))
     = Inr (MintTo mint destination authority (Finite (of_int q)))"
  using assms by (simp add: createMintToInstruction_def)

lemma createToken_transaction_unfold:
  "createToken_transaction lib publicKey mintKeypair metadataPDA mintRent ata uri blockhash data =
     (case createMintToInstruction lib mintKeypair ata publicKey
             (js_times (supply' data) (Math_pow10 lib (decimals data))) of
        Inl e \<Rightarrow> Inl e
      | Inr mintTo \<Rightarrow>
          Inr \<lparr>feePayer = Some publicKey, recentBlockhash = Some blockhash,
               instructions =
                 [CreateAccount publicKey mintKeypair MINT_SIZE mintRent TOKEN_PROGRAM_ID,
                  InitializeMint mintKeypair (decimals data) publicKey (Some publicKey),
                  CreateMetadataAccountV3 metadataPDA mintKeypair publicKey publicKey publicKey
                    (name data) (symbol data) uri,
                  CreateAssociatedTokenAccount publicKey ata publicKey mintKeypair,
                  mintTo]
                 @ (if CoinFormData.revokeMintAuthority data
                    then [SetAuthority mintKeypair publicKey AuthorityType_MintTokens None] else [])
                 @ (if CoinFormData.revokeFreezeAuthority data
                    then [SetAuthority mintKeypair publicKey AuthorityType_FreezeAccount None]
                    else [])\<rparr>)"
  by (simp add: createToken_transaction_def new_Transaction_def transaction_add_def Let_def
      split: sum.splits)

lemma createToken_transaction_InrD:
  assumes "createToken_transaction lib publicKey mintKeypair metadataPDA mintRent ata uri
             blockhash data = Inr tx"
  shows "instructions tx =
     [CreateAccount publicKey mintKeypair MINT_SIZE mintRent TOKEN_PROGRAM_ID,
      InitializeMint mintKeypair (decimals data) publicKey (Some publicKey),
      CreateMetadataAccountV3 metadataPDA mintKeypair publicKey publicKey publicKey
        (name data) (symbol data) uri,
      CreateAssociatedTokenAccount publicKey ata publicKey mintKeypair,
      MintTo mintKeypair ata publicKey (js_times (supply' data) (Math_pow10 lib (decimals data)))]
     @ (if CoinFormData.revokeMintAuthority data
        then [SetAuthority mintKeypair publicKey AuthorityType_MintTokens None] else [])
     @ (if CoinFormData.revokeFreezeAuthority data
        then [SetAuthority mintKeypair publicKey AuthorityType_FreezeAccount None] else [])"
    and "\<exists>q. js_times (supply' data) (Math_pow10 lib (decimals data)) = Finite (of_int q)
           \<and> encodeU64 lib q"
proof -
  from assms obtain mintTo where
    m: "createMintToInstruction lib mintKeypair ata publicKey
          (js_times (supply' data) (Math_pow10 lib (decimals data))) = Inr mintTo"
    by (auto simp add: createToken_transaction_unfold split: sum.splits)
  from createMintToInstruction_InrD [OF m]
  show "\<exists>q. js_times (supply' data) (Math_pow10 lib (decimals data)) = Finite (of_int q)
           \<and> encodeU64 lib q"
    by simp
  from createMintToInstruction_InrD [OF m] assms m
  show "instructions tx =
     [CreateAccount publicKey mintKeypair MINT_SIZE mintRent TOKEN_PROGRAM_ID,
      InitializeMint mintKeypair (decimals data) publicKey (Some publicKey),
      CreateMetadataAccountV3 metadataPDA mintKeypair publicKey publicKey publicKey
        (name data) (symbol data) uri,
      CreateAssociatedTokenAccount publicKey ata publicKey mintKeypair,
      MintTo mintKeypair ata publicKey (js_times (supply' data) (Math_pow10 lib (decimals data)))]
     @ (if CoinFormData.revokeMintAuthority data
        then [SetAuthority mintKeypair publicKey AuthorityType_MintTokens None] else [])
     @ (if CoinFormData.revokeFreezeAuthority data
        then [SetAuthority mintKeypair publicKey AuthorityType_FreezeAccount None] else [])"
    by (auto simp add: createToken_transaction_unfold)
qed

lemma createToken_InrD:
  assumes "createToken lib conn upload publicKey mintKeypair data = Inr tx"
  shows "\<exists>mintRent ata uri blockhash.
    getMinimumBalanceForRentExemptMint conn = Inr mintRent \<and>
    getAssociatedTokenAddress lib mintKeypair publicKey = Inr ata \<and>
    getLatestBlockhash conn = Inr blockhash \<and>
    createToken_transaction lib publicKey mintKeypair (findMetadataAddress lib mintKeypair)
      mintRent ata uri blockhash data = Inr tx"
  using assms by (auto simp add: createToken_def Let_def split: sum.splits)

lemma createToken_instruction_types:
  assumes "createToken lib conn upload publicKey mintKeypair data = Inr tx"
  shows "instruction_types tx =
     [CreateAccountType, InitializeMintType, CreateMetadataType, CreateAssociatedAccountType,
      MintToType]
     @ (if CoinFormData.revokeMintAuthority data
        then [SetAuthorityType AuthorityType_MintTokens None] else [])
     @ (if CoinFormData.revokeFreezeAuthority data
        then [SetAuthorityType AuthorityType_FreezeAccount None] else [])"
proof -
  from createToken_InrD [OF assms] obtain mintRent ata uri blockhash where
    "createToken_transaction lib publicKey mintKeypair (findMetadataAddress lib mintKeypair)
      mintRent ata uri blockhash data = Inr tx"
    by blast
  from createToken_transaction_InrD(1) [OF this] show ?thesis
    by (simp add: instruction_types_def)
qed

text \<open>The example ledger at a supply of a million tokens with nine decimals.\<close>

lemma example_amount [simp]:
  "js_times (Finite 1000000) (Math_pow10 example_sdk 9) = Finite 1000000000000000"
  by (simp add: example_sdk_def)

lemma example_mintTo:
  "createMintToInstruction example_sdk mint destination authority (Finite 1000000000000000)
     = Inr (MintTo mint destination authority (Finite 1000000000000000))"
  using createMintToInstruction_whole [of example_sdk 1000000000000000 mint destination authority]
  by (simp add: example_sdk_def)

lemma example_createToken:
  "createToken example_sdk (example_connection info acct quote) example_upload ''Payer'' ''Mint''
     (example_coin 9 1000000 revokeMint revokeFreeze)
    = Inr \<lparr>feePayer = Some ''Payer'', recentBlockhash = Some ''Blockhash'',
           instructions =
             [CreateAccount ''Payer'' ''Mint'' 82 1461600 TOKEN_PROGRAM_ID,
              InitializeMint ''Mint'' 9 ''Payer'' (Some ''Payer''),
              CreateMetadataAccountV3 ''Metadata'' ''Mint'' ''Payer'' ''Payer'' ''Payer''
                ''Coin'' ''COIN'' ''https://example.org/Mint'',
              CreateAssociatedTokenAccount ''Payer'' ''ATA'' ''Payer'' ''Mint'',
              MintTo ''Mint'' ''ATA'' ''Payer'' (Finite 1000000000000000)]
             @ (if revokeMint
                then [SetAuthority ''Mint'' ''Payer'' AuthorityType_MintTokens None] else [])
             @ (if revokeFreeze
                then [SetAuthority ''Mint'' ''Payer'' AuthorityType_FreezeAccount None] else [])\<rparr>"
proof -
  have sdk: "findMetadataAddress example_sdk ''Mint'' = ''Metadata''"
    "getAssociatedTokenAddress example_sdk ''Mint'' ''Payer'' = Inr ''ATA''"
    by (simp_all add: example_sdk_def)
  show ?thesis
    by (simp add: createToken_def createToken_transaction_unfold sdk example_mintTo
        example_connection_def example_upload_def example_coin_def
        getMinimumBalanceForRentExemptMint_def MINT_SIZE_def)
qed

text \<open>
  Claim C2. Whenever \<open>createToken\<close> hands a transaction to the wallet, its instructions
  are, in this order and with no others: CreateAccount, InitializeMint, CreateMetadata,
  CreateAssociatedAccount, MintTo, then SetAuthority(MintTokens, null) exactly when
  \<open>revokeMintAuthority\<close> is set, then SetAuthority(FreezeAccount, null) exactly when
  \<open>revokeFreezeAuthority\<close> is set.
\<close>

theorem createToken_instruction_order:
  assumes "createToken lib conn upload publicKey mintKeypair data = Inr tx"
  shows "instruction_types tx =
     [CreateAccountType, InitializeMintType, CreateMetadataType, CreateAssociatedAccountType,
      MintToType]
     @ (if CoinFormData.revokeMintAuthority data
        then [SetAuthorityType AuthorityType_MintTokens None] else [])
     @ (if CoinFormData.revokeFreezeAuthority data
        then [SetAuthorityType AuthorityType_FreezeAccount None] else [])"
  using assms by (rule createToken_instruction_types)

theorem createToken_instruction_order_witness:
  "map_sum id instruction_types
     (createToken example_sdk (example_connection example_info None (Some 10000)) example_upload
         ''Payer'' ''Mint'' (example_coin 9 1000000 True False))
   = Inr [CreateAccountType, InitializeMintType, CreateMetadataType,
          CreateAssociatedAccountType, MintToType, SetAuthorityType AuthorityType_MintTokens None]"
proof -
  note built = example_createToken [of example_info None "Some 10000" True False]
  from createToken_instruction_order [OF built] show ?thesis
    unfolding built by (simp add: example_coin_def)
qed


lemma estimateCreateTokenFee_transaction_eq:
  "estimateCreateTokenFee_transaction lib publicKey mintKeypair metadataPDA mintRent ata blockhash
       data
     = createToken_transaction lib publicKey mintKeypair metadataPDA mintRent ata
         placeholder_metadataUri blockhash data"
  by (simp add: estimateCreateTokenFee_transaction_def createToken_transaction_def Let_def)

text \<open>
  What an estimate that is returned consists of: the three rents, the fixed fee, and the
  ledger's fee for the message compiled from the transaction the estimator built.
\<close>

lemma estimateCreateTokenFee_InrD:
  assumes "estimateCreateTokenFee lib conn publicKey mintKeypair data = Inr fee"
  shows "\<exists>mintRent tokenAccountRent metadataAccountRent ata blockhash est.
      getMinimumBalanceForRentExemptMint conn = Inr mintRent
      \<and> getMinimumBalanceForRentExemption conn AccountLayout_span = Inr tokenAccountRent
      \<and> getMinimumBalanceForRentExemption conn 607 = Inr metadataAccountRent
      \<and> getAssociatedTokenAddress lib mintKeypair publicKey = Inr ata
      \<and> getLatestBlockhash conn = Inr blockhash
      \<and> createToken_transaction lib publicKey mintKeypair (findMetadataAddress lib mintKeypair)
           mintRent ata placeholder_metadataUri blockhash data = Inr est
      \<and> (case getFeeForMessage conn of
            Some getFee \<Rightarrow>
              (\<exists>quote. getFee (compileMessage lib est) = Inr quote
                 \<and> fee = mintRent + tokenAccountRent + metadataAccountRent + 10000000
                         + (case quote of None \<Rightarrow> 0 | Some v \<Rightarrow> v))
          | None \<Rightarrow>
              (\<exists>lamportsPerSignature.
                 getFeeCalculatorForBlockhash conn blockhash = Inr (Some lamportsPerSignature)
                 \<and> fee = mintRent + tokenAccountRent + metadataAccountRent + 10000000
                         + lamportsPerSignature * numRequiredSignatures (compileMessage lib est)))"
  using assms
  by (auto simp add: estimateCreateTokenFee_def estimateCreateTokenFee_transaction_eq Let_def
      split: sum.splits option.splits)

text \<open>
  Claim C1. When \<open>estimateCreateTokenFee\<close> returns an estimate, it is the rents and the
  fixed fee plus the ledger's fee for the message compiled from a transaction \<open>est\<close> that
  is the very transaction \<open>createToken\<close> builds for the estimator's data when the upload
  returns the placeholder URI and the generated keypair is the temporary one; and \<open>est\<close>
  has the same number of instructions and the same instruction types in the same order
  as the transaction \<open>createToken\<close> hands to the wallet for any request with the same
  revoke flags, so in particular for the same name, symbol, decimals, supply and flags.
\<close>

theorem estimate_submit_parity:
  assumes "estimateCreateTokenFee lib conn publicKey tempKeypair estimated = Inr fee"
    and "createToken lib' conn' upload publicKey' mintKeypair data = Inr tx"
    and "CoinFormData.revokeMintAuthority estimated = CoinFormData.revokeMintAuthority data"
    and "CoinFormData.revokeFreezeAuthority estimated = CoinFormData.revokeFreezeAuthority data"
  shows "\<exists>est mintRent tokenAccountRent metadataAccountRent.
      createToken lib conn
        (\<lambda>mintId d. Inr \<lparr>metadataUrl = placeholder_metadataUri, imageUrl = None\<rparr>)
        publicKey tempKeypair estimated = Inr est
      \<and> instruction_types est = instruction_types tx
      \<and> length (instructions est) = length (instructions tx)
      \<and> getMinimumBalanceForRentExemptMint conn = Inr mintRent
      \<and> getMinimumBalanceForRentExemption conn AccountLayout_span = Inr tokenAccountRent
      \<and> getMinimumBalanceForRentExemption conn 607 = Inr metadataAccountRent
      \<and> (case getFeeForMessage conn of
            Some getFee \<Rightarrow>
              (\<exists>quote. getFee (compileMessage lib est) = Inr quote
                 \<and> fee = mintRent + tokenAccountRent + metadataAccountRent + 10000000
                         + (case quote of None \<Rightarrow> 0 | Some v \<Rightarrow> v))
          | None \<Rightarrow>
              (\<exists>blockhash lamportsPerSignature.
                 getLatestBlockhash conn = Inr blockhash
                 \<and> getFeeCalculatorForBlockhash conn blockhash = Inr (Some lamportsPerSignature)
                 \<and> fee = mintRent + tokenAccountRent + metadataAccountRent + 10000000
                         + lamportsPerSignature * numRequiredSignatures (compileMessage lib est)))"
proof -
  from estimateCreateTokenFee_InrD [OF assms(1)]
  obtain mintRent tokenAccountRent metadataAccountRent ata blockhash est where
    rents: "getMinimumBalanceForRentExemptMint conn = Inr mintRent"
      "getMinimumBalanceForRentExemption conn AccountLayout_span = Inr tokenAccountRent"
      "getMinimumBalanceForRentExemption conn 607 = Inr metadataAccountRent"
    and ata: "getAssociatedTokenAddress lib tempKeypair publicKey = Inr ata"
    and blockhash: "getLatestBlockhash conn = Inr blockhash"
    and est: "createToken_transaction lib publicKey tempKeypair
           (findMetadataAddress lib tempKeypair) mintRent ata placeholder_metadataUri blockhash
           estimated = Inr est"
    and fee: "case getFeeForMessage conn of
            Some getFee \<Rightarrow>
              (\<exists>quote. getFee (compileMessage lib est) = Inr quote
                 \<and> fee = mintRent + tokenAccountRent + metadataAccountRent + 10000000
                         + (case quote of None \<Rightarrow> 0 | Some v \<Rightarrow> v))
          | None \<Rightarrow>
              (\<exists>lamportsPerSignature.
                 getFeeCalculatorForBlockhash conn blockhash = Inr (Some lamportsPerSignature)
                 \<and> fee = mintRent + tokenAccountRent + metadataAccountRent + 10000000
                         + lamportsPerSignature * numRequiredSignatures (compileMessage lib est))"
    by blast
  have placeholder: "createToken lib conn
        (\<lambda>mintId d. Inr \<lparr>metadataUrl = placeholder_metadataUri, imageUrl = None\<rparr>)
        publicKey tempKeypair estimated = Inr est"
    by (simp add: createToken_def rents(1) ata blockhash est)
  have types: "instruction_types est = instruction_types tx"
    by (simp add: createToken_instruction_types [OF placeholder]
        createToken_instruction_types [OF assms(2)] assms(3,4))
  then have len: "length (instructions est) = length (instructions tx)"
    unfolding instruction_types_def by (rule map_eq_imp_length_eq)
  from fee blockhash have fee':
    "case getFeeForMessage conn of
            Some getFee \<Rightarrow>
              (\<exists>quote. getFee (compileMessage lib est) = Inr quote
                 \<and> fee = mintRent + tokenAccountRent + metadataAccountRent + 10000000
                         + (case quote of None \<Rightarrow> 0 | Some v \<Rightarrow> v))
          | None \<Rightarrow>
              (\<exists>blockhash lamportsPerSignature.
                 getLatestBlockhash conn = Inr blockhash
                 \<and> getFeeCalculatorForBlockhash conn blockhash = Inr (Some lamportsPerSignature)
                 \<and> fee = mintRent + tokenAccountRent + metadataAccountRent + 10000000
                         + lamportsPerSignature * numRequiredSignatures (compileMessage lib est))"
    by (auto split: option.splits)
  from placeholder types len rents fee' show ?thesis
    by blast
qed

text \<open>
  The estimate as the page requests it, with dummy name and symbol, against the
  submission of the user's data.
\<close>

theorem estimate_submit_parity_witness:
  "estimateCreateTokenFee example_sdk (example_connection example_info None (Some 10000))
     ''Payer'' ''Temp''
     ((example_coin 9 1000000 True True)\<lparr>name := ''dummy'', symbol := ''dummy''\<rparr>)
   = Inr 18626480
   \<and> (\<exists>est. createToken example_sdk (example_connection example_info None (Some 10000))
          (\<lambda>mintId d. Inr \<lparr>metadataUrl = placeholder_metadataUri, imageUrl = None\<rparr>)
          ''Payer'' ''Temp''
          ((example_coin 9 1000000 True True)\<lparr>name := ''dummy'', symbol := ''dummy''\<rparr>)
        = Inr est
      \<and> instruction_types est =
          [CreateAccountType, InitializeMintType, CreateMetadataType,
           CreateAssociatedAccountType, MintToType,
           SetAuthorityType AuthorityType_MintTokens None,
           SetAuthorityType AuthorityType_FreezeAccount None])"
proof -
  let ?conn = "example_connection example_info None (Some 10000)"
  let ?dummy = "(example_coin 9 1000000 True True)\<lparr>name := ''dummy'', symbol := ''dummy''\<rparr>"
  have sdk: "findMetadataAddress example_sdk ''Temp'' = ''Metadata''"
    "getAssociatedTokenAddress example_sdk ''Temp'' ''Payer'' = Inr ''ATA''"
    by (simp_all add: example_sdk_def)
  have estimate: "estimateCreateTokenFee example_sdk ?conn ''Payer'' ''Temp'' ?dummy = Inr 18626480"
    by (simp add: estimateCreateTokenFee_def estimateCreateTokenFee_transaction_eq
        createToken_transaction_unfold sdk example_mintTo example_connection_def example_coin_def
        getMinimumBalanceForRentExemptMint_def MINT_SIZE_def AccountLayout_span_def)
  note submitted = example_createToken [of example_info None "Some 10000" True True]
  have types: "instruction_types
      \<lparr>feePayer = Some ''Payer'', recentBlockhash = Some ''Blockhash'',
           instructions =
             [CreateAccount ''Payer'' ''Mint'' 82 1461600 TOKEN_PROGRAM_ID,
              InitializeMint ''Mint'' 9 ''Payer'' (Some ''Payer''),
              CreateMetadataAccountV3 ''Metadata'' ''Mint'' ''Payer'' ''Payer'' ''Payer''
                ''Coin'' ''COIN'' ''https://example.org/Mint'',
              CreateAssociatedTokenAccount ''Payer'' ''ATA'' ''Payer'' ''Mint'',
              MintTo ''Mint'' ''ATA'' ''Payer'' (Finite 1000000000000000)]
             @ (if True
                then [SetAuthority ''Mint'' ''Payer'' AuthorityType_MintTokens None] else [])
             @ (if True
                then [SetAuthority ''Mint'' ''Payer'' AuthorityType_FreezeAccount None] else [])\<rparr>
     = [CreateAccountType, InitializeMintType, CreateMetadataType,
           CreateAssociatedAccountType, MintToType,
           SetAuthorityType AuthorityType_MintTokens None,
           SetAuthorityType AuthorityType_FreezeAccount None]"
    by (simp add: instruction_types_def)
  have flags: "CoinFormData.revokeMintAuthority ?dummy
       = CoinFormData.revokeMintAuthority (example_coin 9 1000000 True True)"
    "CoinFormData.revokeFreezeAuthority ?dummy
       = CoinFormData.revokeFreezeAuthority (example_coin 9 1000000 True True)"
    by simp_all
  from estimate_submit_parity [OF estimate submitted flags] types
  have "\<exists>est. createToken example_sdk ?conn
          (\<lambda>mintId d. Inr \<lparr>metadataUrl = placeholder_metadataUri, imageUrl = None\<rparr>)
          ''Payer'' ''Temp'' ?dummy = Inr est
      \<and> instruction_types est =
          [CreateAccountType, InitializeMintType, CreateMetadataType,
           CreateAssociatedAccountType, MintToType,
           SetAuthorityType AuthorityType_MintTokens None,
           SetAuthorityType AuthorityType_FreezeAccount None]"
    by auto
  with estimate show ?thesis
    by blast
qed


section \<open>The amount minted at creation\<close>

lemma createUltraCheapToken_transaction_unfold:
  "createUltraCheapToken_transaction lib publicKey mintKeypair mintRent ata blockhash data =
     (case createMintToInstruction lib mintKeypair ata publicKey
             (js_times (supply' data) (Math_pow10 lib (decimals data))) of
        Inl e \<Rightarrow> Inl e
      | Inr mintTo \<Rightarrow>
          Inr \<lparr>feePayer = Some publicKey, recentBlockhash = Some blockhash,
               instructions =
                 [CreateAccount publicKey mintKeypair MINT_SIZE mintRent TOKEN_PROGRAM_ID,
                  InitializeMint mintKeypair (decimals data) publicKey (Some publicKey),
                  CreateAssociatedTokenAccount publicKey ata publicKey mintKeypair,
                  mintTo]\<rparr>)"
  by (simp add: createUltraCheapToken_transaction_def new_Transaction_def transaction_add_def
      Let_def split: sum.splits)







lemma is_double_of_nat:
  assumes "n < 2 ^ 53"
  shows "is_double (Finite (of_nat n))"
  using round_double_of_nat [OF assms] by (simp add: is_double_def)






section \<open>Revoking authorities\<close>

text \<open>
  The two "already revoked" checks of \<open>onSubmit\<close> come after the two "not the holder"
  checks, which an absent authority already fails: for a connected wallet the handler
  never reports that the mint authority is already revoked.
\<close>

lemma revoke_never_reports_already_revoked:
  assumes "k \<noteq> []"
  shows "RevokeAuthoritiesClient_onSubmit lib (Some k) tokenInfo data \<noteq> Inl MintAuthorityAlreadyRevoked"
  using assms
  by (auto simp add: RevokeAuthoritiesClient_onSubmit_def falsy_string_def new_PublicKey_def Let_def
      split: option.splits)

text \<open>
  Claim C4. A mint whose mint authority is \<^verbatim>\<open>null\<close> and whose freeze authority is the
  wallet resolves to a \<^verbatim>\<open>tokenInfo\<close> with no mint authority; submitting
  \<open>revokeMintAuthority\<close> for it reports "You do not have mint authority for this token."
  (the error for an authority held by someone else), not "Mint authority has already
  been revoked for this token.". No transaction is built.
\<close>

theorem revoked_mint_authority_reported_as_not_held:
  "RevokeAuthoritiesClient_fetchTokenInfo example_sdk
     (example_connection
        \<lparr>info_decimals = 9, info_mintAuthority = None, info_freezeAuthority = Some ''Payer''\<rparr>
        None None)
     (Some ''Payer'') ''Mint''
   = Inr \<lparr>mintAuthority = None, freezeAuthority = Some ''Payer''\<rparr>
   \<and> RevokeAuthoritiesClient_handleSubmit example_sdk (Some ''Payer'')
       (Some \<lparr>mintAuthority = None, freezeAuthority = Some ''Payer''\<rparr>)
       \<lparr>RevokeFormData.tokenAddress = ''Mint'', revokeMintAuthority = True,
        revokeFreezeAuthority = False\<rparr>
   = Inl NotMintAuthority"
  by (simp add: RevokeAuthoritiesClient_fetchTokenInfo_def RevokeAuthoritiesClient_handleSubmit_def
      RevokeAuthoritiesClient_onSubmit_def revokeSchema_def new_PublicKey_def example_sdk_def
      example_connection_def)

text \<open>
  Claim C10. Form data that selects neither authority is rejected by \<open>revokeSchema\<close>,
  whatever the wallet and the token, and \<open>onSubmit\<close> is not called. Every transaction a
  revoke submission builds is SetAuthority(MintTokens, null) when selected followed by
  SetAuthority(FreezeAccount, null) when selected, for the entered mint and the wallet;
  it is never empty, and with both selected the mint revocation comes first.
\<close>

theorem revoke_requires_a_selection:
  "(\<not> RevokeFormData.revokeMintAuthority data \<and> \<not> RevokeFormData.revokeFreezeAuthority data \<longrightarrow>
      RevokeAuthoritiesClient_handleSubmit lib publicKey tokenInfo data = Inl ValidationFailed)
   \<and> (RevokeAuthoritiesClient_handleSubmit lib publicKey tokenInfo data = Inr tx \<longrightarrow>
        (\<exists>k. publicKey = Some k \<and>
           instructions tx =
             (if RevokeFormData.revokeMintAuthority data
              then [SetAuthority (RevokeFormData.tokenAddress data) k AuthorityType_MintTokens None]
              else [])
             @ (if RevokeFormData.revokeFreezeAuthority data
                then [SetAuthority (RevokeFormData.tokenAddress data) k AuthorityType_FreezeAccount None]
                else []))
        \<and> instructions tx \<noteq> []
        \<and> (RevokeFormData.revokeMintAuthority data \<and> RevokeFormData.revokeFreezeAuthority data \<longrightarrow>
             instruction_types tx =
               [SetAuthorityType AuthorityType_MintTokens None,
                SetAuthorityType AuthorityType_FreezeAccount None]))"
  by (auto simp add: RevokeAuthoritiesClient_handleSubmit_def RevokeAuthoritiesClient_onSubmit_def
      revokeSchema_def new_PublicKey_def new_Transaction_def transaction_add_def
      instruction_types_def Let_def
      split: option.splits if_splits)

theorem revoke_requires_a_selection_witness:
  "RevokeAuthoritiesClient_handleSubmit example_sdk (Some ''Payer'')
       (Some \<lparr>mintAuthority = Some ''Payer'', freezeAuthority = Some ''Payer''\<rparr>)
       \<lparr>RevokeFormData.tokenAddress = ''Mint'', revokeMintAuthority = False,
        revokeFreezeAuthority = False\<rparr>
     = Inl ValidationFailed
   \<and> map_sum id instructions
       (RevokeAuthoritiesClient_handleSubmit example_sdk (Some ''Payer'')
         (Some \<lparr>mintAuthority = Some ''Payer'', freezeAuthority = Some ''Payer''\<rparr>)
         \<lparr>RevokeFormData.tokenAddress = ''Mint'', revokeMintAuthority = True,
          revokeFreezeAuthority = True\<rparr>)
     = Inr [SetAuthority ''Mint'' ''Payer'' AuthorityType_MintTokens None,
            SetAuthority ''Mint'' ''Payer'' AuthorityType_FreezeAccount None]"
proof -
  let ?info = "Some \<lparr>mintAuthority = Some ''Payer'', freezeAuthority = Some ''Payer''\<rparr>"
  let ?both = "\<lparr>RevokeFormData.tokenAddress = ''Mint'', revokeMintAuthority = True,
          revokeFreezeAuthority = True\<rparr>"
  let ?none = "\<lparr>RevokeFormData.tokenAddress = ''Mint'', revokeMintAuthority = False,
          revokeFreezeAuthority = False\<rparr>"
  have built: "RevokeAuthoritiesClient_handleSubmit example_sdk (Some ''Payer'') ?info ?both
      = Inr \<lparr>feePayer = None, recentBlockhash = None, instructions =
              [SetAuthority ''Mint'' ''Payer'' AuthorityType_MintTokens None,
               SetAuthority ''Mint'' ''Payer'' AuthorityType_FreezeAccount None]\<rparr>"
    by (simp add: RevokeAuthoritiesClient_handleSubmit_def RevokeAuthoritiesClient_onSubmit_def
        revokeSchema_def new_PublicKey_def new_Transaction_def transaction_add_def
        falsy_string_def example_sdk_def)
  have rejected: "RevokeAuthoritiesClient_handleSubmit example_sdk (Some ''Payer'') ?info ?none
      = Inl ValidationFailed"
    using revoke_requires_a_selection [of ?none example_sdk "Some ''Payer''" ?info]
    by simp
  from rejected built show ?thesis
    by simp
qed

section \<open>Freezing and thawing\<close>

text \<open>
  Claim C5. When the resolved \<^verbatim>\<open>accountInfo\<close> says the target account exists and is
  frozen, a freeze submission with a connected wallet fails with "Cannot freeze account -
  it is already frozen."; with or without a wallet no transaction is built.
\<close>

theorem freeze_already_frozen:
  assumes "exists accountInfo" and "frozen accountInfo" and "action data = freeze"
  shows "FreezeTokensClient_onSubmit lib conn (Some publicKey) (Some accountInfo) data
           = Inl AlreadyFrozen
     \<and> isl (FreezeTokensClient_onSubmit lib conn wallet (Some accountInfo) data)"
  using assms
  by (simp add: FreezeTokensClient_onSubmit_def split: option.splits)

theorem freeze_already_frozen_witness:
  "FreezeTokensClient_fetchAccountInfo example_sdk
     (example_connection example_info (Some \<lparr>account_amount = 5, isFrozen = True\<rparr>) None)
     ''Mint'' ''Target''
   = Some \<lparr>exists = True, frozen = True\<rparr>
   \<and> FreezeTokensClient_onSubmit example_sdk
       (example_connection example_info (Some \<lparr>account_amount = 5, isFrozen = True\<rparr>) None)
       (Some ''Payer'') (Some \<lparr>exists = True, frozen = True\<rparr>)
       \<lparr>FreezeFormData.tokenAddress = ''Mint'', targetAddress = ''Target'', action = freeze\<rparr>
   = Inl AlreadyFrozen"
proof -
  have "FreezeTokensClient_onSubmit example_sdk
       (example_connection example_info (Some \<lparr>account_amount = 5, isFrozen = True\<rparr>) None)
       (Some ''Payer'') (Some \<lparr>exists = True, frozen = True\<rparr>)
       \<lparr>FreezeFormData.tokenAddress = ''Mint'', targetAddress = ''Target'', action = freeze\<rparr>
   = Inl AlreadyFrozen"
    using freeze_already_frozen
      [of "\<lparr>exists = True, frozen = True\<rparr>"
          "\<lparr>FreezeFormData.tokenAddress = ''Mint'', targetAddress = ''Target'', action = freeze\<rparr>"]
    by simp
  then show ?thesis
    by (simp add: FreezeTokensClient_fetchAccountInfo_def new_PublicKey_def example_sdk_def
        example_connection_def)
qed

text \<open>
  What holds of an unfreeze submission: with a resolved \<^verbatim>\<open>accountInfo\<close> that shows the
  target account as absent or not frozen it fails with AccountDoesNotExist or
  AccountNotFrozen; with a resolved account that exists and is frozen and that the live
  lookup finds, the transaction is exactly one ThawAccount; with \<^verbatim>\<open>accountInfo\<close> not set,
  an account that the live lookup does not find is rejected; and every transaction an
  unfreeze submission builds is exactly one ThawAccount, with no account creation.
\<close>

lemma unfreeze_needs_frozen_account:
  assumes "action data = unfreeze"
  shows "(\<not> exists accountInfo \<or> \<not> frozen accountInfo \<longrightarrow>
            FreezeTokensClient_onSubmit lib conn (Some publicKey) (Some accountInfo) data
              = Inl (if exists accountInfo then AccountNotFrozen else AccountDoesNotExist))
     \<and> (exists accountInfo \<and> frozen accountInfo
          \<and> new_PublicKey lib (FreezeFormData.tokenAddress data) = Inr mintPubkey
          \<and> new_PublicKey lib (targetAddress data) = Inr targetPubkey
          \<and> getAssociatedTokenAddress lib mintPubkey targetPubkey = Inr tokenAccount
          \<and> getAccount conn tokenAccount = Inr live \<longrightarrow>
            FreezeTokensClient_onSubmit lib conn (Some publicKey) (Some accountInfo) data
              = Inr \<lparr>feePayer = None, recentBlockhash = None,
                     instructions = [ThawAccount tokenAccount mintPubkey publicKey]\<rparr>)
     \<and> (new_PublicKey lib (FreezeFormData.tokenAddress data) = Inr mintPubkey
          \<and> new_PublicKey lib (targetAddress data) = Inr targetPubkey
          \<and> getAssociatedTokenAddress lib mintPubkey targetPubkey = Inr tokenAccount
          \<and> getAccount conn tokenAccount = Inl missing \<longrightarrow>
            FreezeTokensClient_onSubmit lib conn (Some publicKey) None data
              = Inl UnfreezeAccountMissing)
     \<and> (FreezeTokensClient_onSubmit lib conn wallet state data = Inr tx \<longrightarrow>
            (\<exists>account mint authority. instructions tx = [ThawAccount account mint authority]))"
  using assms
  by (auto simp add: FreezeTokensClient_onSubmit_def new_Transaction_def transaction_add_def Let_def
      split: option.splits sum.splits if_splits)

text \<open>
  Claim C6. The check "Cannot unfreeze account - it is already unfrozen." (lines 185 to
  188) runs only inside \<^verbatim>\<open>if (accountInfo)\<close>. With a connected wallet, \<^verbatim>\<open>accountInfo\<close> not set and
  a target token account that exists on the ledger and is not frozen, an unfreeze
  submission does not fail with AccountNotFrozen: the live lookup finds the account and
  a transaction of one ThawAccount is built and handed to the wallet.
\<close>

theorem unfreeze_unresolved_builds_thaw:
  "map_sum id isFrozen
     (getAccount
        (example_connection example_info (Some \<lparr>account_amount = 5, isFrozen = False\<rparr>) None)
        ''ATA'')
     = Inr False
   \<and> FreezeTokensClient_onSubmit example_sdk
       (example_connection example_info (Some \<lparr>account_amount = 5, isFrozen = False\<rparr>) None)
       (Some ''Payer'') None
       \<lparr>FreezeFormData.tokenAddress = ''Mint'', targetAddress = ''Target'', action = unfreeze\<rparr>
     = Inr \<lparr>feePayer = None, recentBlockhash = None,
            instructions = [ThawAccount ''ATA'' ''Mint'' ''Payer'']\<rparr>"
  by (simp add: FreezeTokensClient_onSubmit_def new_PublicKey_def new_Transaction_def
      transaction_add_def example_sdk_def example_connection_def)

text \<open>The submission is not refused: what is handed to the wallet is one ThawAccount.\<close>

theorem unfreeze_unresolved_builds_thaw_witness:
  "map_sum id instruction_types
     (FreezeTokensClient_onSubmit example_sdk
       (example_connection example_info (Some \<lparr>account_amount = 5, isFrozen = False\<rparr>) None)
       (Some ''Payer'') None
       \<lparr>FreezeFormData.tokenAddress = ''Mint'', targetAddress = ''Target'', action = unfreeze\<rparr>)
     = Inr [ThawAccountType]"
  using unfreeze_unresolved_builds_thaw
  by (simp add: instruction_types_def)

section \<open>Minting\<close>

text \<open>
  When the library builds the MintTo instruction, the handler builds the transaction:
  one MintTo when the recipient's account is found, preceded by the creation of that
  account when it is not.
\<close>

lemma mint_builds_when_amount_encodable:
  assumes "new_PublicKey lib (MintFormData.tokenAddress data) = Inr mintPubkey"
    and "new_PublicKey lib (recipientAddress data) = Inr recipientPubkey"
    and "getParsedAccountInfo conn mintPubkey = Inr (Some (Parsed ty info))"
    and "getAssociatedTokenAddress lib mintPubkey recipientPubkey = Inr recipientTokenAccount"
    and "createMintToInstruction lib mintPubkey recipientTokenAccount publicKey
           (Math_floor (js_times (MintFormData.amount data) (Math_pow10 lib (info_decimals info))))
         = Inr mintTo"
  shows "MintTokensClient_onSubmit lib conn (Some publicKey) data
     = Inr \<lparr>feePayer = None, recentBlockhash = None,
            instructions =
              (case getAccount conn recipientTokenAccount of
                 Inr found \<Rightarrow> [mintTo]
               | Inl missing \<Rightarrow>
                   [CreateAssociatedTokenAccount publicKey recipientTokenAccount
                      recipientPubkey mintPubkey,
                    mintTo])\<rparr>"
  using assms
  by (simp add: MintTokensClient_onSubmit_def Math_pow_def new_Transaction_def
      transaction_add_def Let_def split: sum.splits)

text \<open>
  Claim C7. Every transaction a mint submission hands to the wallet targets the
  recipient's associated token account for the entered mint: when the lookup of that
  account succeeds, the transaction is exactly one MintTo; when it fails, the
  transaction is CreateAssociatedTokenAccount for that same account followed by MintTo
  into it. The amount minted is a whole number that the library encodes.
\<close>

theorem mint_creates_missing_account_first:
  assumes "MintTokensClient_onSubmit lib conn wallet data = Inr tx"
  shows "\<exists>publicKey mintPubkey recipientPubkey recipientTokenAccount mintAmount.
      wallet = Some publicKey
      \<and> new_PublicKey lib (MintFormData.tokenAddress data) = Inr mintPubkey
      \<and> new_PublicKey lib (recipientAddress data) = Inr recipientPubkey
      \<and> getAssociatedTokenAddress lib mintPubkey recipientPubkey = Inr recipientTokenAccount
      \<and> (\<exists>q. mintAmount = Finite (of_int q) \<and> encodeU64 lib q)
      \<and> (case getAccount conn recipientTokenAccount of
           Inr found \<Rightarrow>
             instructions tx = [MintTo mintPubkey recipientTokenAccount publicKey mintAmount]
         | Inl missing \<Rightarrow>
             instructions tx =
               [CreateAssociatedTokenAccount publicKey recipientTokenAccount recipientPubkey
                  mintPubkey,
                MintTo mintPubkey recipientTokenAccount publicKey mintAmount])"
  using assms
  by (auto simp add: MintTokensClient_onSubmit_def Let_def new_Transaction_def
      transaction_add_def
      split: option.splits sum.splits account_data.splits
      dest!: createMintToInstruction_InrD)

text \<open>The example ledger at an amount of one and a half tokens with nine decimals.\<close>

lemma example_mint_amount:
  "Math_floor (js_times (Finite (3 / 2)) (Math_pow10 example_sdk 9)) = Finite 1500000000"
  by (simp add: example_sdk_def)

lemma example_mint_mintTo:
  "createMintToInstruction example_sdk mint destination authority (Finite 1500000000)
     = Inr (MintTo mint destination authority (Finite 1500000000))"
  using createMintToInstruction_whole [of example_sdk 1500000000 mint destination authority]
  by (simp add: example_sdk_def)

theorem mint_creates_missing_account_first_witness:
  "MintTokensClient_onSubmit example_sdk
     (example_connection example_info (Some \<lparr>account_amount = 5, isFrozen = False\<rparr>) None)
     (Some ''Payer'')
     \<lparr>MintFormData.tokenAddress = ''Mint'', recipientAddress = ''Target'', amount = Finite (3 / 2)\<rparr>
     = Inr \<lparr>feePayer = None, recentBlockhash = None,
            instructions = [MintTo ''Mint'' ''ATA'' ''Payer'' (Finite 1500000000)]\<rparr>
   \<and> MintTokensClient_onSubmit example_sdk (example_connection example_info None None)
     (Some ''Payer'')
     \<lparr>MintFormData.tokenAddress = ''Mint'', recipientAddress = ''Target'', amount = Finite (3 / 2)\<rparr>
     = Inr \<lparr>feePayer = None, recentBlockhash = None,
            instructions = [CreateAssociatedTokenAccount ''Payer'' ''ATA'' ''Target'' ''Mint'',
                            MintTo ''Mint'' ''ATA'' ''Payer'' (Finite 1500000000)]\<rparr>"
proof -
  let ?data = "\<lparr>MintFormData.tokenAddress = ''Mint'', recipientAddress = ''Target'',
                 amount = Finite (3 / 2)\<rparr>"
  let ?present = "example_connection example_info (Some \<lparr>account_amount = 5, isFrozen = False\<rparr>) None"
  let ?absent = "example_connection example_info None None"
  have keys: "new_PublicKey example_sdk ''Mint'' = Inr ''Mint''"
    "new_PublicKey example_sdk ''Target'' = Inr ''Target''"
    "getAssociatedTokenAddress example_sdk ''Mint'' ''Target'' = Inr ''ATA''"
    by (simp_all add: new_PublicKey_def example_sdk_def)
  have decimals9: "info_decimals example_info = 9"
    by (simp add: example_info_def)
  have a: "\<exists>tx. MintTokensClient_onSubmit example_sdk ?present (Some ''Payer'') ?data = Inr tx"
    by (simp add: MintTokensClient_onSubmit_def keys Math_pow_def decimals9 example_mint_amount
        example_mint_mintTo example_connection_def)
  have b: "\<exists>tx. MintTokensClient_onSubmit example_sdk ?absent (Some ''Payer'') ?data = Inr tx"
    by (simp add: MintTokensClient_onSubmit_def keys Math_pow_def decimals9 example_mint_amount
        example_mint_mintTo example_connection_def)
  from a obtain tx where tx: "MintTokensClient_onSubmit example_sdk ?present (Some ''Payer'') ?data
      = Inr tx"
    by blast
  from b obtain tx' where tx': "MintTokensClient_onSubmit example_sdk ?absent (Some ''Payer'') ?data
      = Inr tx'"
    by blast
  from mint_creates_missing_account_first [OF tx]
  have shape: "\<exists>mintAmount. instructions tx = [MintTo ''Mint'' ''ATA'' ''Payer'' mintAmount]"
    by (auto simp add: keys example_connection_def)
  from mint_creates_missing_account_first [OF tx']
  have shape': "\<exists>mintAmount. instructions tx' =
      [CreateAssociatedTokenAccount ''Payer'' ''ATA'' ''Target'' ''Mint'',
       MintTo ''Mint'' ''ATA'' ''Payer'' mintAmount]"
    by (auto simp add: keys example_connection_def)
  from shape tx have c: "MintTokensClient_onSubmit example_sdk ?present (Some ''Payer'') ?data
     = Inr \<lparr>feePayer = None, recentBlockhash = None,
            instructions = [MintTo ''Mint'' ''ATA'' ''Payer'' (Finite 1500000000)]\<rparr>"
    by (auto simp add: MintTokensClient_onSubmit_def keys Math_pow_def decimals9
        example_mint_amount example_mint_mintTo example_connection_def new_Transaction_def
        transaction_add_def)
  from shape' tx' have d: "MintTokensClient_onSubmit example_sdk ?absent (Some ''Payer'') ?data
     = Inr \<lparr>feePayer = None, recentBlockhash = None,
            instructions = [CreateAssociatedTokenAccount ''Payer'' ''ATA'' ''Target'' ''Mint'',
                            MintTo ''Mint'' ''ATA'' ''Payer'' (Finite 1500000000)]\<rparr>"
    by (auto simp add: MintTokensClient_onSubmit_def keys Math_pow_def decimals9
        example_mint_amount example_mint_mintTo example_connection_def new_Transaction_def
        transaction_add_def)
  from c d show ?thesis
    by simp
qed

text \<open>
  The amount is scaled in doubles: \<^verbatim>\<open>0.7 * 10\<close> is \<open>7\<close>, so for a mint with one decimal an
  amount of \<^verbatim>\<open>0.7\<close> mints \<open>7\<close> units.
\<close>

lemma mint_seven_tenths:
  "MintTokensClient_onSubmit example_sdk
     (example_connection (example_info\<lparr>info_decimals := 1\<rparr>)
        (Some \<lparr>account_amount = 5, isFrozen = False\<rparr>) None)
     (Some ''Payer'')
     \<lparr>MintFormData.tokenAddress = ''Mint'', recipientAddress = ''Target'',
      amount = Finite (3152519739159347 / 4503599627370496)\<rparr>
     = Inr \<lparr>feePayer = None, recentBlockhash = None,
            instructions = [MintTo ''Mint'' ''ATA'' ''Payer'' (Finite 7)]\<rparr>"
proof -
  have keys: "new_PublicKey example_sdk ''Mint'' = Inr ''Mint''"
    "new_PublicKey example_sdk ''Target'' = Inr ''Target''"
    "getAssociatedTokenAddress example_sdk ''Mint'' ''Target'' = Inr ''ATA''"
    by (simp_all add: new_PublicKey_def example_sdk_def)
  have pow: "Math_pow10 example_sdk 1 = Finite 10"
    by (simp add: example_sdk_def)
  have mintTo: "createMintToInstruction example_sdk ''Mint'' ''ATA'' ''Payer'' (Finite 7)
      = Inr (MintTo ''Mint'' ''ATA'' ''Payer'' (Finite 7))"
    using createMintToInstruction_whole [of example_sdk 7 "''Mint''" "''ATA''" "''Payer''"]
    by (simp add: example_sdk_def)
  have "MintTokensClient_onSubmit example_sdk
     (example_connection (example_info\<lparr>info_decimals := 1\<rparr>)
        (Some \<lparr>account_amount = 5, isFrozen = False\<rparr>) None)
     (Some ''Payer'')
     \<lparr>MintFormData.tokenAddress = ''Mint'', recipientAddress = ''Target'',
      amount = Finite (3152519739159347 / 4503599627370496)\<rparr>
     = (case createMintToInstruction example_sdk ''Mint'' ''ATA'' ''Payer''
               (Math_floor (js_times (Finite (3152519739159347 / 4503599627370496))
                  (Math_pow10 example_sdk 1))) of
          Inl e \<Rightarrow> Inl e
        | Inr mintTo \<Rightarrow> Inr (transaction_add (new_Transaction None None) mintTo))"
    by (simp add: MintTokensClient_onSubmit_def keys Math_pow_def example_connection_def
        del: js_times.simps)
  then show ?thesis
    by (simp only: pow seven_tenths_times_ten Math_floor.simps floor_numeral of_int_numeral
        mintTo sum.case new_Transaction_def transaction_add_def transaction.simps append_Nil)
qed

section \<open>Burning\<close>







text \<open>
  The comparison is made on the doubles: with one decimal and a balance of \<open>6\<close>, an
  amount of \<^verbatim>\<open>0.7\<close> scales to \<open>7\<close> and is refused.
\<close>

lemma burn_seven_tenths:
  "BurnTokensClient_onSubmit example_sdk (Some ''Payer'')
     (Some \<lparr>tokenInfo_decimals = 1, userBalanceRaw = Some (Finite 6)\<rparr>)
     \<lparr>BurnFormData.tokenAddress = ''Mint'',
      amount = Finite (3152519739159347 / 4503599627370496)\<rparr>
   = Inl InsufficientBalance"
proof -
  have pow: "Math_pow10 example_sdk 1 = Finite 10"
    by (simp add: example_sdk_def)
  have scaled: "Math_floor (js_times (Finite (3152519739159347 / 4503599627370496))
      (Math_pow10 example_sdk 1)) = Finite 7"
    by (simp only: pow seven_tenths_times_ten Math_floor.simps floor_numeral of_int_numeral)
  have "BurnTokensClient_onSubmit example_sdk (Some ''Payer'')
     (Some \<lparr>tokenInfo_decimals = 1, userBalanceRaw = Some (Finite 6)\<rparr>)
     \<lparr>BurnFormData.tokenAddress = ''Mint'',
      amount = Finite (3152519739159347 / 4503599627370496)\<rparr>
   = (if js_greater (Math_floor (js_times (Finite (3152519739159347 / 4503599627370496))
      (Math_pow10 example_sdk 1))) (Finite 6) then Inl InsufficientBalance
      else BurnTokensClient_onSubmit example_sdk (Some ''Payer'')
     (Some \<lparr>tokenInfo_decimals = 1, userBalanceRaw = Some (Finite 6)\<rparr>)
     \<lparr>BurnFormData.tokenAddress = ''Mint'',
      amount = Finite (3152519739159347 / 4503599627370496)\<rparr>)"
    by (simp add: BurnTokensClient_onSubmit_def falsy_number_def Let_def del: js_times.simps)
  then show ?thesis
    unfolding scaled by simp
qed

section \<open>Fee quotes\<close>

text \<open>
  What holds of the estimator: a failed rent lookup is passed on, an estimate is returned
  only when every rent figure and the blockhash were supplied, and the fallback returns
  no estimate for a \<^verbatim>\<open>null\<close> fee calculator.
\<close>

lemma estimate_rent_failure_propagates:
  assumes "getMinimumBalanceForRentExemptMint conn = Inl e"
  shows "estimateCreateTokenFee lib conn publicKey mintKeypair data = Inl e"
    and "estimateUltraCheapTokenFee lib conn publicKey mintKeypair udata = Inl e"
  using assms
  by (simp_all add: estimateCreateTokenFee_def estimateUltraCheapTokenFee_def Let_def)

lemma estimate_needs_every_rent:
  assumes "estimateCreateTokenFee lib conn publicKey mintKeypair data = Inr fee"
  shows "\<exists>mintRent tokenAccountRent metadataAccountRent blockhash.
      getMinimumBalanceForRentExemptMint conn = Inr mintRent
      \<and> getMinimumBalanceForRentExemption conn AccountLayout_span = Inr tokenAccountRent
      \<and> getMinimumBalanceForRentExemption conn 607 = Inr metadataAccountRent
      \<and> getLatestBlockhash conn = Inr blockhash
      \<and> mintRent + tokenAccountRent + metadataAccountRent + 10000000 \<le> fee"
  using assms
  by (auto simp add: estimateCreateTokenFee_def Let_def split: sum.splits option.splits)

lemma estimate_fallback_checks_null:
  assumes "getFeeForMessage conn = None"
    and "getLatestBlockhash conn = Inr blockhash"
    and "getFeeCalculatorForBlockhash conn blockhash = Inr None"
  shows "\<exists>e. estimateCreateTokenFee lib conn publicKey mintKeypair data = Inl e"
  using assms
  by (auto simp add: estimateCreateTokenFee_def Let_def split: sum.splits)

lemma estimateUltraCheapTokenFee_transaction_eq:
  "estimateUltraCheapTokenFee_transaction lib publicKey mintKeypair mintRent ata blockhash data
     = createUltraCheapToken_transaction lib publicKey mintKeypair mintRent ata blockhash data"
  by (simp add: estimateUltraCheapTokenFee_transaction_def createUltraCheapToken_transaction_def)

text \<open>
  Claim C9. On a ledger whose \<^verbatim>\<open>getFeeForMessage\<close> answers \<^verbatim>\<open>value: null\<close> (no fee quote),
  both estimators return the sum of the rents and fixed fees alone: a partial estimate,
  not an error.
\<close>

theorem null_fee_quote_gives_partial_estimate:
  "estimateCreateTokenFee example_sdk (example_connection example_info None None)
     ''Payer'' ''Temp'' (example_coin 9 1000000 False False) = Inr 18616480
   \<and> estimateUltraCheapTokenFee example_sdk (example_connection example_info None None)
     ''Payer'' ''Temp''
     \<lparr>name = ''Coin'', symbol = ''COIN'', decimals = 9, supply' = Finite 1000000\<rparr>
     = Inr 3500880"
proof -
  have sdk: "findMetadataAddress example_sdk ''Temp'' = ''Metadata''"
    "getAssociatedTokenAddress example_sdk ''Temp'' ''Payer'' = Inr ''ATA''"
    by (simp_all add: example_sdk_def)
  have a: "estimateCreateTokenFee example_sdk (example_connection example_info None None)
     ''Payer'' ''Temp'' (example_coin 9 1000000 False False) = Inr 18616480"
    by (simp add: estimateCreateTokenFee_def estimateCreateTokenFee_transaction_eq
        createToken_transaction_unfold sdk example_mintTo example_connection_def example_coin_def
        getMinimumBalanceForRentExemptMint_def MINT_SIZE_def AccountLayout_span_def)
  have b: "estimateUltraCheapTokenFee example_sdk (example_connection example_info None None)
     ''Payer'' ''Temp''
     \<lparr>name = ''Coin'', symbol = ''COIN'', decimals = 9, supply' = Finite 1000000\<rparr>
     = Inr 3500880"
    by (simp add: estimateUltraCheapTokenFee_def estimateUltraCheapTokenFee_transaction_eq
        createUltraCheapToken_transaction_unfold sdk example_mintTo example_connection_def
        getMinimumBalanceForRentExemptMint_def MINT_SIZE_def AccountLayout_span_def)
  from a b show ?thesis
    by simp
qed

end
